theory Spec2Isabelle
  imports Main "HOL-Library.Sublist" "HOL-Library.Multiset"
begin

section \<open>JavaScript string primitives used by the command parser\<close>

text \<open>
  Strings are lists of code units restricted to the Latin-1 range (type \<open>char\<close>).
  The functions below follow \<open>String.prototype\<close>: \<open>toLowerCase\<close>, \<open>trim\<close>,
  \<open>includes\<close> (here \<open>str_includes\<close>), \<open>indexOf\<close>, \<open>substring\<close>, \<open>split\<close>.
\<close>

definition ascii_upper :: string where
  "ascii_upper = ''ABCDEFGHIJKLMNOPQRSTUVWXYZ''"

definition ascii_lower :: string where
  "ascii_lower = ''abcdefghijklmnopqrstuvwxyz''"

text \<open>The upper-case letters of the Latin-1 supplement and their lower-case forms.\<close>

definition latin1_upper :: string where
  "latin1_upper =
    [CHR 0xC0, CHR 0xC1, CHR 0xC2, CHR 0xC3, CHR 0xC4, CHR 0xC5, CHR 0xC6, CHR 0xC7,
     CHR 0xC8, CHR 0xC9, CHR 0xCA, CHR 0xCB, CHR 0xCC, CHR 0xCD, CHR 0xCE, CHR 0xCF,
     CHR 0xD0, CHR 0xD1, CHR 0xD2, CHR 0xD3, CHR 0xD4, CHR 0xD5, CHR 0xD6, CHR 0xD8,
     CHR 0xD9, CHR 0xDA, CHR 0xDB, CHR 0xDC, CHR 0xDD, CHR 0xDE]"

definition latin1_lower :: string where
  "latin1_lower =
    [CHR 0xE0, CHR 0xE1, CHR 0xE2, CHR 0xE3, CHR 0xE4, CHR 0xE5, CHR 0xE6, CHR 0xE7,
     CHR 0xE8, CHR 0xE9, CHR 0xEA, CHR 0xEB, CHR 0xEC, CHR 0xED, CHR 0xEE, CHR 0xEF,
     CHR 0xF0, CHR 0xF1, CHR 0xF2, CHR 0xF3, CHR 0xF4, CHR 0xF5, CHR 0xF6, CHR 0xF8,
     CHR 0xF9, CHR 0xFA, CHR 0xFB, CHR 0xFC, CHR 0xFD, CHR 0xFE]"

definition lower_char :: "char \<Rightarrow> char" where
  "lower_char c =
     (case map_of (zip (ascii_upper @ latin1_upper) (ascii_lower @ latin1_lower)) c of
        Some d \<Rightarrow> d
      | None \<Rightarrow> c)"

definition toLowerCase :: "string \<Rightarrow> string" where
  "toLowerCase s = map lower_char s"

text \<open>White space and line terminators of ECMAScript that lie in the Latin-1 range.\<close>

definition is_space :: "char \<Rightarrow> bool" where
  "is_space c = (c \<in> set [CHR 0x09, CHR 0x0A, CHR 0x0B, CHR 0x0C, CHR 0x0D, CHR 0x20, CHR 0xA0])"

definition is_letter :: "char \<Rightarrow> bool" where
  "is_letter c = (c \<in> set ascii_lower \<or> c \<in> set ascii_upper)"

definition is_line_terminator :: "char \<Rightarrow> bool" where
  "is_line_terminator c = (c = CHR 0x0A \<or> c = CHR 0x0D)"

definition trim :: "string \<Rightarrow> string" where
  "trim s = rev (dropWhile is_space (rev (dropWhile is_space s)))"

fun starts_with :: "string \<Rightarrow> string \<Rightarrow> bool" where
  "starts_with s [] = True"
| "starts_with [] (c # cs) = False"
| "starts_with (x # xs) (c # cs) = (x = c \<and> starts_with xs cs)"

fun str_includes :: "string \<Rightarrow> string \<Rightarrow> bool" where
  "str_includes [] sub = starts_with [] sub"
| "str_includes (x # xs) sub = (starts_with (x # xs) sub \<or> str_includes xs sub)"

text \<open>\<open>indexOf\<close>: \<open>None\<close> stands for the result \<open>-1\<close>.\<close>

fun indexOf_from :: "nat \<Rightarrow> string \<Rightarrow> string \<Rightarrow> nat option" where
  "indexOf_from i [] sub = (if starts_with [] sub then Some i else None)"
| "indexOf_from i (x # xs) sub =
     (if starts_with (x # xs) sub then Some i else indexOf_from (Suc i) xs sub)"

definition indexOf :: "string \<Rightarrow> string \<Rightarrow> nat option" where
  "indexOf s sub = indexOf_from 0 s sub"

text \<open>\<open>s.substring(i)\<close> for an index \<open>i\<close> that is a natural number.\<close>

definition substring :: "string \<Rightarrow> nat \<Rightarrow> string" where
  "substring s i = drop i s"

text \<open>
  \<open>s.split(/\s+/)\<close>: the pieces between maximal runs of white space; a run at the start
  or at the end of the string leaves an empty first or last piece.
\<close>

fun split_ws_aux :: "string \<Rightarrow> bool \<Rightarrow> string \<Rightarrow> string list" where
  "split_ws_aux acc inws [] = [acc]"
| "split_ws_aux acc inws (c # cs) =
     (if is_space c
      then (if inws then split_ws_aux acc True cs else acc # split_ws_aux [] True cs)
      else split_ws_aux (acc @ [c]) False cs)"

definition split_ws :: "string \<Rightarrow> string list" where
  "split_ws s = split_ws_aux [] False s"

text \<open>\<open>s.split(sep)\<close> with a string separator.\<close>

function split_str_aux :: "string \<Rightarrow> string \<Rightarrow> string \<Rightarrow> string list" where
  "split_str_aux sep acc s =
     (if s = [] then [acc]
      else if sep \<noteq> [] \<and> starts_with s sep
        then acc # split_str_aux sep [] (drop (length sep) s)
      else split_str_aux sep (acc @ [hd s]) (tl s))"
  by pat_completeness auto
termination
  by (relation "measure (\<lambda>(sep, acc, s). length s)") auto

definition split_str :: "string \<Rightarrow> string \<Rightarrow> string list" where
  "split_str s sep = (if sep = [] then map (\<lambda>c. [c]) s else split_str_aux sep [] s)"

text \<open>Array indexing \<open>xs[i]\<close>: \<open>None\<close> stands for \<open>undefined\<close>.\<close>

definition nth_opt :: "'a list \<Rightarrow> nat \<Rightarrow> 'a option" where
  "nth_opt xs i = (if i < length xs then Some (xs ! i) else None)"

section \<open>Regular expressions\<close>

text \<open>
  The regular expressions of the parser, as syntax trees, and a backtracking matcher that
  lists the ways a pattern can match at a position in the priority order of ECMAScript:
  alternatives left to right, a greedy quantifier longest first, a lazy one shortest first.
  The head of the list is the match that \<open>RegExp.prototype.exec\<close> finds there.  Every
  pattern of the parser has the \<open>i\<close> flag, or no letters at all, so literal characters are
  compared without regard to case.  Quantifiers occur in the parser on character classes
  only (\<open>\s+\<close>, \<open>[a-z]+\<close>, \<open>.+?\<close>).
\<close>

datatype cclass = CSpace | CLetter | CAny | CQuote

fun in_class :: "cclass \<Rightarrow> char \<Rightarrow> bool" where
  "in_class CSpace c = is_space c"
| "in_class CLetter c = is_letter c"
| "in_class CAny c = (\<not> is_line_terminator c)"
| "in_class CQuote c = (c = CHR 0x22 \<or> c = CHR 0x27)"

datatype regex =
    Eps
  | Chr char
  | Cls cclass
  | Plus cclass
  | PlusLazy cclass
  | Seq regex regex
  | Alt regex regex
  | Opt regex
  | Cap nat regex
  | Bol
  | Eol

text \<open>A matcher state: the position, the rest of the input from there, the captures so far.\<close>

type_synonym caps = "nat \<Rightarrow> string option"
type_synonym mstate = "nat \<times> string \<times> caps"

fun rmatch :: "regex \<Rightarrow> mstate \<Rightarrow> mstate list" where
  "rmatch Eps st = [st]"
| "rmatch (Chr c) (p, rest, cs) =
     (case rest of
        [] \<Rightarrow> []
      | x # xs \<Rightarrow> if lower_char x = lower_char c then [(Suc p, xs, cs)] else [])"
| "rmatch (Cls k) (p, rest, cs) =
     (case rest of
        [] \<Rightarrow> []
      | x # xs \<Rightarrow> if in_class k x then [(Suc p, xs, cs)] else [])"
| "rmatch (Plus k) (p, rest, cs) =
     map (\<lambda>n. (p + n, drop n rest, cs))
       (rev [1..<Suc (length (takeWhile (in_class k) rest))])"
| "rmatch (PlusLazy k) (p, rest, cs) =
     map (\<lambda>n. (p + n, drop n rest, cs))
       [1..<Suc (length (takeWhile (in_class k) rest))]"
| "rmatch (Seq a b) st = concat (map (rmatch b) (rmatch a st))"
| "rmatch (Alt a b) st = rmatch a st @ rmatch b st"
| "rmatch (Opt a) st = rmatch a st @ [st]"
| "rmatch (Cap i a) (p, rest, cs) =
     map (\<lambda>(q, rest', cs'). (q, rest', cs'(i := Some (take (q - p) rest))))
       (rmatch a (p, rest, cs))"
| "rmatch Bol (p, rest, cs) = (if p = 0 then [(p, rest, cs)] else [])"
| "rmatch Eol (p, rest, cs) = (if rest = [] then [(p, rest, cs)] else [])"

text \<open>
  \<open>rsearch r p rest\<close> tries the start positions from \<open>p\<close> on, left to right, and returns
  the first match: its start, its end and its captures.
\<close>

fun rsearch :: "regex \<Rightarrow> nat \<Rightarrow> string \<Rightarrow> (nat \<times> nat \<times> caps) option" where
  "rsearch r p rest =
     (case rmatch r (p, rest, \<lambda>_. None) of
        (q, _, cs) # _ \<Rightarrow> Some (p, q, cs)
      | [] \<Rightarrow> (case rest of [] \<Rightarrow> None | _ # xs \<Rightarrow> rsearch r (Suc p) xs))"

text \<open>\<open>s.match(r)\<close> and \<open>r.exec(s)\<close> for a pattern without the \<open>g\<close> flag.\<close>

definition rexec :: "regex \<Rightarrow> string \<Rightarrow> (nat \<times> nat \<times> caps) option" where
  "rexec r s = rsearch r 0 s"

definition rtest :: "regex \<Rightarrow> string \<Rightarrow> bool" where
  "rtest r s = (rexec r s \<noteq> None)"

text \<open>Capture group \<open>i\<close> of a match, \<open>None\<close> for no match or a group that took no part.\<close>

definition capture :: "(nat \<times> nat \<times> caps) option \<Rightarrow> nat \<Rightarrow> string option" where
  "capture m i = (case m of None \<Rightarrow> None | Some (a, b, cs) \<Rightarrow> cs i)"

text \<open>\<open>s.replace(r, '')\<close> for a pattern without the \<open>g\<close> flag: the first match is removed.\<close>

definition rremove_first :: "regex \<Rightarrow> string \<Rightarrow> string" where
  "rremove_first r s =
     (case rexec r s of None \<Rightarrow> s | Some (a, b, cs) \<Rightarrow> take a s @ drop b s)"

text \<open>Literal text and alternatives.\<close>

definition lit :: "string \<Rightarrow> regex" where
  "lit s = foldr (\<lambda>c r. Seq (Chr c) r) s Eps"

definition alts :: "string list \<Rightarrow> regex" where
  "alts ws = foldr (\<lambda>w r. Alt (lit w) r) (butlast ws) (lit (last ws))"

definition seqs :: "regex list \<Rightarrow> regex" where
  "seqs rs = foldr Seq rs Eps"

text \<open>
  \<open>s.replace(r, '')\<close> for a pattern with the \<open>g\<close> flag: the matches are found from left
  to right, each search starting where the previous match ended (one further after an
  empty match), and all of them are removed.
\<close>

lemma rmatch_pos: "(q, rest', cs') \<in> set (rmatch r (p, rest, cs)) \<Longrightarrow> p \<le> q"
proof (induction r arbitrary: p rest cs q rest' cs')
  case (Seq a b)
  then obtain m where m: "m \<in> set (rmatch a (p, rest, cs))"
    and q: "(q, rest', cs') \<in> set (rmatch b m)"
    by auto
  obtain p1 r1 c1 where m_eq: "m = (p1, r1, c1)"
    by (cases m)
  from Seq.IH(1) m m_eq have "p \<le> p1" by blast
  moreover from Seq.IH(2) q m_eq have "p1 \<le> q" by blast
  ultimately show ?case by simp
qed (auto split: list.splits if_splits)

lemma rsearch_bounds:
  "rsearch r p rest = Some (a, b, cs) \<Longrightarrow> p \<le> a \<and> a \<le> b \<and> a \<le> p + length rest"
proof (induction r p rest rule: rsearch.induct)
  case (1 r p rest)
  show ?case
  proof (cases "rmatch r (p, rest, \<lambda>_. None)")
    case Nil
    with "1.prems" obtain x xs where rest: "rest = x # xs"
      and rec: "rsearch r (Suc p) xs = Some (a, b, cs)"
      by (cases rest) auto
    from "1.IH"[OF Nil rest rec] rest show ?thesis by simp
  next
    case (Cons m ms)
    obtain q r' c' where m: "m = (q, r', c')" by (cases m)
    with Cons "1.prems" have eq: "a = p" "b = q" by auto
    from Cons m have "(q, r', c') \<in> set (rmatch r (p, rest, \<lambda>_. None))" by simp
    from rmatch_pos[OF this] eq show ?thesis by simp
  qed
qed

function rmatches_from :: "regex \<Rightarrow> string \<Rightarrow> nat \<Rightarrow> (nat \<times> nat) list" where
  "rmatches_from r s p =
     (if length s < p then []
      else (case rsearch r p (drop p s) of
              None \<Rightarrow> []
            | Some (a, b, cs) \<Rightarrow> (a, b) # rmatches_from r s (if a = b then Suc b else b)))"
  by pat_completeness auto
termination
  apply (relation "measure (\<lambda>(r, s, p). Suc (length s) - p)")
   apply simp
  subgoal for r s p x2 a y b cs
    using rsearch_bounds[of r p "drop p s" a b cs] by auto
  done

fun cut_spans :: "string \<Rightarrow> nat \<Rightarrow> (nat \<times> nat) list \<Rightarrow> string" where
  "cut_spans s p [] = drop p s"
| "cut_spans s p ((a, b) # ms) = take (a - p) (drop p s) @ cut_spans s b ms"

definition rremove_all :: "regex \<Rightarrow> string \<Rightarrow> string" where
  "rremove_all r s = cut_spans s 0 (rmatches_from r s 0)"

section \<open>The command parser (src/lib/command-parser.ts)\<close>

text \<open>An optional string in a condition: \<open>undefined\<close> and the empty string are falsy.\<close>

fun truthy :: "string option \<Rightarrow> bool" where
  "truthy None = False"
| "truthy (Some s) = (s \<noteq> [])"

subsection \<open>extractContactName\<close>

text \<open>The group \<open>([a-z]+(?:\s+[a-z]+)?)\<close>, as capture \<open>i\<close>.\<close>

definition name_group :: "nat \<Rightarrow> regex" where
  "name_group i = Cap i (Seq (Plus CLetter) (Opt (Seq (Plus CSpace) (Plus CLetter))))"

definition contact_patterns :: "regex list" where
  "contact_patterns =
    [seqs [alts [''from'', ''to'', ''with''], Plus CSpace, name_group 1],
     seqs [alts [''contact'', ''person''], Plus CSpace, name_group 1],
     seqs [alts [''friend'', ''buddy''], Plus CSpace, name_group 1]]"

definition commonWords :: "string list" where
  "commonWords =
    [''the'', ''a'', ''an'', ''your'', ''my'', ''his'', ''her'', ''their'', ''this'', ''that'',
     ''message'', ''text'', ''chat'']"

fun name_by_patterns :: "string \<Rightarrow> regex list \<Rightarrow> string option" where
  "name_by_patterns message [] = None"
| "name_by_patterns message (pattern # rest) =
     (case capture (rexec pattern message) 1 of
        None \<Rightarrow> name_by_patterns message rest
      | Some g \<Rightarrow>
          if g \<noteq> [] \<and> toLowerCase (trim g) \<notin> set commonWords then Some (trim g)
          else name_by_patterns message rest)"

definition afterPhrases :: "string list" where
  "afterPhrases =
    [''message from'', ''text from'', ''chat with'', ''send to'', ''reply to'', ''message to'']"

text \<open>The test \<open>/^[a-z]+$/i\<close>.\<close>

definition letters_only :: regex where
  "letters_only = seqs [Bol, Plus CLetter, Eol]"

fun name_after_phrases :: "string \<Rightarrow> string \<Rightarrow> string list \<Rightarrow> string option" where
  "name_after_phrases message lowerMessage [] = None"
| "name_after_phrases message lowerMessage (phrase # rest) =
     (case indexOf lowerMessage phrase of
        None \<Rightarrow> name_after_phrases message lowerMessage rest
      | Some index \<Rightarrow>
          (case split_ws (trim (substring message (index + length phrase))) of
             [] \<Rightarrow> name_after_phrases message lowerMessage rest
           | potentialName # _ \<Rightarrow>
               if 2 < length potentialName \<and> rtest letters_only potentialName
               then Some potentialName
               else name_after_phrases message lowerMessage rest))"

definition extractContactName :: "string \<Rightarrow> string option" where
  "extractContactName message =
     (case name_by_patterns message contact_patterns of
        Some name \<Rightarrow> Some name
      | None \<Rightarrow> name_after_phrases message (toLowerCase message) afterPhrases)"

subsection \<open>isFillerPhrase\<close>

definition fillerPatterns :: "regex list" where
  "fillerPatterns =
    [seqs [Bol, Cap 1 (alts [''a'', ''an'', ''the'']), Plus CSpace, lit ''message'', Eol],
     seqs [Bol, Cap 1 (alts [''a'', ''an'', ''the'']), Plus CSpace, lit ''text'', Eol],
     seqs [Bol, Cap 1 (alts [''a'', ''an'', ''the'']), Plus CSpace, lit ''chat'', Eol],
     seqs [Bol, lit ''message'', Eol],
     seqs [Bol, lit ''text'', Eol],
     seqs [Bol, lit ''chat'', Eol]]"

definition isFillerPhrase :: "string \<Rightarrow> bool" where
  "isFillerPhrase text =
     (let lowerText = trim (toLowerCase text)
      in list_ex (\<lambda>pattern. rtest pattern lowerText) fillerPatterns)"

subsection \<open>Patterns shared by the message extractors\<close>

text \<open>\<open>/^["']|["']$/g\<close> and \<open>/\s+to\s+[a-z]+$/i\<close>.\<close>

definition quotes_re :: regex where
  "quotes_re = Alt (Seq Bol (Cls CQuote)) (Seq (Cls CQuote) Eol)"

definition trailing_to_re :: regex where
  "trailing_to_re = seqs [Plus CSpace, lit ''to'', Plus CSpace, Plus CLetter, Eol]"

subsection \<open>extractMessageToSend\<close>

definition fillerPhrases :: "regex list" where
  "fillerPhrases =
    [seqs [Bol, lit ''send'', Plus CSpace, alts [''a'', ''the'', ''an''], Plus CSpace,
           lit ''message'', Plus CSpace, lit ''to''],
     seqs [Bol, lit ''text'', Plus CSpace, alts [''a'', ''the'', ''an''], Plus CSpace,
           lit ''message'', Plus CSpace, lit ''to''],
     seqs [Bol, lit ''send'', Plus CSpace, alts [''a'', ''the'', ''an''], Plus CSpace,
           lit ''text'', Plus CSpace, lit ''to''],
     seqs [Bol, lit ''message'', Plus CSpace, alts [''a'', ''the'', ''an''], Plus CSpace,
           lit ''message'', Plus CSpace, lit ''to'']]"

text \<open>
  The first loop of \<open>extractMessageToSend\<close>; \<open>True\<close> when it returns \<open>undefined\<close>:
  a filler pattern matches and nothing of three characters or more follows the contact name
  (or no contact name is found).
\<close>

fun filler_without_content :: "string \<Rightarrow> string \<Rightarrow> regex list \<Rightarrow> bool" where
  "filler_without_content message lowerMessage [] = False"
| "filler_without_content message lowerMessage (fillerPattern # rest) =
     (if rtest fillerPattern message then
        (case extractContactName message of
           None \<Rightarrow> True
         | Some contactMatch \<Rightarrow>
             if contactMatch = [] then True
             else (case nth_opt (split_str lowerMessage (toLowerCase contactMatch)) 1 of
                     None \<Rightarrow> True
                   | Some piece \<Rightarrow>
                       if trim piece = [] \<or> length (trim piece) < 3 then True
                       else filler_without_content message lowerMessage rest))
      else filler_without_content message lowerMessage rest)"

definition explicitPatterns :: "regex list" where
  "explicitPatterns =
    [seqs [alts [''saying'', ''with'', ''that says'', ''which says'', ''message is'', ''text is''],
           Plus CSpace, Cap 1 (PlusLazy CAny),
           Alt (seqs [Plus CSpace, lit ''to'', Plus CSpace])
             (Alt (seqs [Plus CSpace, lit ''from'', Plus CSpace]) Eol)],
     seqs [alts [''send'', ''text''], Plus CSpace, Cap 1 (PlusLazy CAny), Plus CSpace,
           alts [''saying'', ''with'', ''that says'']]]"

fun by_explicit_patterns :: "string \<Rightarrow> regex list \<Rightarrow> string option" where
  "by_explicit_patterns message [] = None"
| "by_explicit_patterns message (pattern # rest) =
     (case capture (rexec pattern message) 1 of
        None \<Rightarrow> by_explicit_patterns message rest
      | Some g \<Rightarrow>
          if g = [] then by_explicit_patterns message rest
          else (let text = rremove_first trailing_to_re (rremove_all quotes_re (trim g))
                in if 0 < length text \<and> \<not> isFillerPhrase text then Some text
                   else by_explicit_patterns message rest))"

definition sendToPattern :: regex where
  "sendToPattern =
     seqs [alts [''send'', ''text''], Plus CSpace, Cap 1 (PlusLazy CAny), Plus CSpace,
           lit ''to'', Plus CSpace, name_group 2]"

definition sendToContactPattern :: regex where
  "sendToContactPattern =
     seqs [alts [''send'', ''text''], Plus CSpace, lit ''to'', Plus CSpace, name_group 1,
           Plus CSpace, Cap 2 (PlusLazy CAny), Eol]"

text \<open>The body shared by the two single-pattern attempts, on capture \<open>i\<close>.\<close>

definition by_pattern_group :: "string \<Rightarrow> regex \<Rightarrow> nat \<Rightarrow> string option" where
  "by_pattern_group message pattern i =
     (case capture (rexec pattern message) i of
        None \<Rightarrow> None
      | Some g \<Rightarrow>
          if g = [] then None
          else (let text = rremove_all quotes_re (trim g)
                in if \<not> isFillerPhrase text \<and> 0 < length text then Some text else None))"

definition skipWords :: "string list" where
  "skipWords =
    [''send'', ''text'', ''message'', ''to'', ''with'', ''saying'', ''that'', ''a'', ''an'', ''the'']"

definition endWords :: "string list" where
  "endWords = [''to'', ''from'', ''contact'', ''in'', ''whatsapp'']"

fun first_index :: "('a \<Rightarrow> bool) \<Rightarrow> 'a list \<Rightarrow> nat option" where
  "first_index P [] = None"
| "first_index P (x # xs) =
     (if P x then Some 0 else map_option Suc (first_index P xs))"

fun join_sp :: "string list \<Rightarrow> string" where
  "join_sp [] = []"
| "join_sp [w] = w"
| "join_sp (w # v # ws) = w @ '' '' @ join_sp (v # ws)"

text \<open>The last attempt: the words after the first \<open>send\<close> or \<open>text\<close>.\<close>

definition by_word_scan :: "string \<Rightarrow> string \<Rightarrow> string option" where
  "by_word_scan message lowerMessage =
     (let indices = List.map_filter id [indexOf lowerMessage ''send'', indexOf lowerMessage ''text'']
      in if indices = [] then None
         else
          (let startIndex = fold min (tl indices) (hd indices);
               words = split_ws (trim (substring message startIndex))
           in case first_index (\<lambda>w. toLowerCase w \<notin> set skipWords \<and> 1 < length (toLowerCase w)) words of
                None \<Rightarrow> None
              | Some messageStart \<Rightarrow>
                  (let messageEnd =
                         (case first_index (\<lambda>w. toLowerCase w \<in> set endWords) (drop messageStart words) of
                            None \<Rightarrow> length words
                          | Some k \<Rightarrow> messageStart + k);
                       messageWords = take (messageEnd - messageStart) (drop messageStart words)
                   in if 0 < length messageWords
                      then (let extracted = join_sp messageWords
                            in if \<not> isFillerPhrase extracted then Some extracted else None)
                      else None)))"

definition extractMessageToSend :: "string \<Rightarrow> string option" where
  "extractMessageToSend message =
     (let lowerMessage = toLowerCase message
      in if filler_without_content message lowerMessage fillerPhrases then None
         else (case by_explicit_patterns message explicitPatterns of
                 Some text \<Rightarrow> Some text
               | None \<Rightarrow>
                   (case by_pattern_group message sendToPattern 1 of
                      Some text \<Rightarrow> Some text
                    | None \<Rightarrow>
                        (case by_pattern_group message sendToContactPattern 2 of
                           Some text \<Rightarrow> Some text
                         | None \<Rightarrow> by_word_scan message lowerMessage))))"

subsection \<open>extractReplyMessage\<close>

definition replyPatterns :: "regex list" where
  "replyPatterns =
    [seqs [alts [''reply'', ''respond''], Plus CSpace, alts [''with'', ''saying''], Plus CSpace,
           Cap 1 (PlusLazy CAny), Eol],
     seqs [alts [''reply'', ''respond''], Plus CSpace, Cap 1 (PlusLazy CAny), Eol]]"

fun by_reply_patterns :: "string \<Rightarrow> regex list \<Rightarrow> string option" where
  "by_reply_patterns message [] = None"
| "by_reply_patterns message (pattern # rest) =
     (case capture (rexec pattern message) 1 of
        None \<Rightarrow> by_reply_patterns message rest
      | Some g \<Rightarrow>
          if g = [] then by_reply_patterns message rest
          else (let text = rremove_all quotes_re (rremove_first trailing_to_re (trim g))
                in if 0 < length text then Some text else by_reply_patterns message rest))"

definition extractReplyMessage :: "string \<Rightarrow> string option" where
  "extractReplyMessage message = by_reply_patterns message replyPatterns"

subsection \<open>parseCommand\<close>

datatype cmd_type = WhatsApp | Email | Calendar | General

datatype cmd_action = Check | Send | Reply | Read | Unknown

record Filters =
  unread :: "bool option"
  contact :: "string option"
  limit :: "int option"

record ParsedCommand =
  ctype :: cmd_type
  action :: cmd_action
  target :: "string option"
  message :: "string option"
  replyTo :: "string option"
  filters :: "Filters option"

definition parseWhatsAppCommand :: "string \<Rightarrow> string \<Rightarrow> ParsedCommand" where
  "parseWhatsAppCommand lowerMessage originalMessage =
     (let command = \<lparr>ctype = WhatsApp, action = Unknown, target = None, message = None,
                      replyTo = None, filters = None\<rparr>
      in if str_includes lowerMessage ''new message'' \<or>
            str_includes lowerMessage ''any message'' \<or>
            str_includes lowerMessage ''check message'' \<or>
            str_includes lowerMessage ''unread'' \<or>
            str_includes lowerMessage ''new text'' \<or>
            str_includes lowerMessage ''read message'' \<or>
            (str_includes lowerMessage ''read'' \<and> str_includes lowerMessage ''whatsapp'')
         then
           (let contactMatch = extractContactName originalMessage
            in if truthy contactMatch
               then command\<lparr>action := Check,
                      filters := Some \<lparr>unread = Some True, contact = contactMatch, limit = None\<rparr>,
                      target := contactMatch\<rparr>
               else command\<lparr>action := Check,
                      filters := Some \<lparr>unread = Some True, contact = None, limit = None\<rparr>\<rparr>)
         else if str_includes lowerMessage ''send'' \<or>
            (str_includes lowerMessage ''text'' \<and> \<not> str_includes lowerMessage ''read'') \<or>
            str_includes lowerMessage ''message to'' \<or>
            (str_includes lowerMessage ''send'' \<and> str_includes lowerMessage ''to'')
         then
           (let contactMatch = extractContactName originalMessage;
                messageMatch = extractMessageToSend originalMessage
            in command\<lparr>action := Send,
                 target := (if truthy contactMatch then contactMatch else None),
                 message := (if truthy messageMatch then messageMatch else None)\<rparr>)
         else if str_includes lowerMessage ''reply'' \<or>
            str_includes lowerMessage ''respond'' \<or>
            (str_includes lowerMessage ''reply'' \<and> str_includes lowerMessage ''with'')
         then
           (let contactMatch = extractContactName originalMessage;
                replyMatch = extractReplyMessage originalMessage
            in command\<lparr>action := Reply,
                 target := (if truthy contactMatch then contactMatch else None),
                 message := (if truthy replyMatch then replyMatch else None)\<rparr>)
         else if (str_includes lowerMessage ''read'' \<and> \<not> str_includes lowerMessage ''new'') \<or>
            str_includes lowerMessage ''show message'' \<or>
            str_includes lowerMessage ''get message'' \<or>
            str_includes lowerMessage ''messages from''
         then
           (let contactMatch = extractContactName originalMessage
            in if truthy contactMatch
               then command\<lparr>action := Read, target := contactMatch,
                      filters := Some \<lparr>unread = None, contact = contactMatch, limit = None\<rparr>\<rparr>
               else command)
         else command)"

definition parseEmailCommand :: "string \<Rightarrow> string \<Rightarrow> ParsedCommand" where
  "parseEmailCommand lowerMessage originalMessage =
     \<lparr>ctype = Email, action = Unknown, target = None, message = None, replyTo = None,
      filters = None\<rparr>"

definition parseCalendarCommand :: "string \<Rightarrow> string \<Rightarrow> ParsedCommand" where
  "parseCalendarCommand lowerMessage originalMessage =
     \<lparr>ctype = Calendar, action = Unknown, target = None, message = None, replyTo = None,
      filters = None\<rparr>"

text \<open>\<open>None\<close> stands for \<open>null\<close>: not a command.\<close>

definition parseCommand :: "string \<Rightarrow> ParsedCommand option" where
  "parseCommand userMessage =
     (let lowerMessage = trim (toLowerCase userMessage)
      in if str_includes lowerMessage ''whatsapp'' \<or> str_includes lowerMessage ''message'' \<or>
            str_includes lowerMessage ''text'' \<or> str_includes lowerMessage ''chat''
         then Some (parseWhatsAppCommand lowerMessage userMessage)
         else if str_includes lowerMessage ''email'' \<or> str_includes lowerMessage ''mail''
         then Some (parseEmailCommand lowerMessage userMessage)
         else if str_includes lowerMessage ''calendar'' \<or> str_includes lowerMessage ''event'' \<or>
            str_includes lowerMessage ''meeting''
         then Some (parseCalendarCommand lowerMessage userMessage)
         else None)"

section \<open>The messaging bridge (class WhatsAppService)\<close>

subsection \<open>The underlying client, as far as the service uses it\<close>

text \<open>
  A thrown \<open>Error\<close> is its message; an operation that may throw returns \<open>Inl\<close> of the
  message or \<open>Inr\<close> of its value.  A hidden field of the client that the service probes
  (\<open>pupPage\<close>, \<open>info\<close>) is read as one of three kinds of value, or the read throws.
\<close>

datatype jsval = Nullish | Falsy | Truthy

record RawMessage =
  rm_id :: string
  rm_body :: string
  rm_timestamp :: int
  rm_from :: "string option"
  rm_notifyName :: "string option"
  rm_fromName :: "string option"
  rm_reply :: "string \<Rightarrow> string option"

record Chat =
  chat_name :: "string option"
  chat_id_user :: "string option"
  chat_id_serialized :: string
  chat_isGroup :: bool
  unreadCount :: int
  fetchMessages :: "int \<Rightarrow> string + RawMessage list"

record Contact =
  pushname :: "string option"
  number :: string
  contact_id_serialized :: string

record Client =
  pupPage :: "string + jsval"
  info :: "string + jsval"
  getChats :: "string + Chat list"
  getContacts :: "string + Contact list"
  getChatById :: "string \<Rightarrow> string + Chat"
  client_sendMessage :: "string \<Rightarrow> string \<Rightarrow> string option"

text \<open>
  \<open>rm_reply m text\<close> and \<open>client_sendMessage c chatId text\<close> are \<open>None\<close> when the call
  succeeds and \<open>Some\<close> of the error message when it throws.  Time stamps of the client are
  whole seconds.  The time stamp of a \<open>WhatsAppMessage\<close> is a \<open>Date\<close>: its time value in
  milliseconds, or \<open>None\<close> for an Invalid Date, whose \<open>getTime()\<close> is \<open>NaN\<close>.
\<close>

record WhatsAppMessage =
  mid :: string
  mfrom :: string
  body :: string
  timestamp :: "int option"
  isGroup :: bool
  contactName :: "string option"

text \<open>
  \<open>new Date(seconds * 1000)\<close>: a time value beyond 8.64e15 milliseconds on either side of
  the epoch gives an Invalid Date.
\<close>

definition date_of_seconds :: "int \<Rightarrow> int option" where
  "date_of_seconds seconds =
     (if \<bar>seconds * 1000\<bar> \<le> 8640000000000000 then Some (seconds * 1000) else None)"

record Service =
  client :: "Client option"
  isReady :: bool
  isAuthenticated :: bool
  qrCode :: "string option"

text \<open>\<open>try { body } catch (e) { handler }\<close>.\<close>

fun try_catch :: "string + 'a \<Rightarrow> (string \<Rightarrow> string + 'a) \<Rightarrow> string + 'a" where
  "try_catch (Inl e) handler = handler e"
| "try_catch (Inr v) handler = Inr v"

subsection \<open>setupEventHandlers\<close>

datatype Event =
    EvQr string
  | EvReady
  | EvAuthenticated
  | EvAuthFailure string
  | EvDisconnected string
  | EvMessage string

text \<open>
  The timers that the service arms with \<open>setTimeout\<close>: the one of the \<open>disconnected\<close>
  handler (3000 ms) and the one of \<open>autoInitialize\<close>, called by the constructor (2000 ms).
  When a timer fires, its callback may call \<open>initialize\<close> again, see \<open>timer_callback\<close>.
\<close>

datatype Timer = ReconnectTimer | AutoInitializeTimer

fun timer_delay_ms :: "Timer \<Rightarrow> nat" where
  "timer_delay_ms ReconnectTimer = 3000"
| "timer_delay_ms AutoInitializeTimer = 2000"

text \<open>
  What each handler does when its event is delivered: the service afterwards and the
  timers it arms.  The handler of \<open>disconnected\<close> arms the reconnect timer unless the
  reason is \<open>LOGOUT\<close>.
\<close>

fun handle_event :: "Event \<Rightarrow> Service \<Rightarrow> Service \<times> Timer list" where
  "handle_event (EvQr qr) s = (s\<lparr>qrCode := Some qr\<rparr>, [])"
| "handle_event EvReady s =
     (s\<lparr>isReady := True, isAuthenticated := True, qrCode := None\<rparr>, [])"
| "handle_event EvAuthenticated s = (s\<lparr>isAuthenticated := True\<rparr>, [])"
| "handle_event (EvAuthFailure msg) s = (s\<lparr>isReady := False, isAuthenticated := False\<rparr>, [])"
| "handle_event (EvDisconnected reason) s =
     (s\<lparr>isReady := False, isAuthenticated := False, qrCode := None\<rparr>,
      if reason = ''LOGOUT'' then [] else [ReconnectTimer])"
| "handle_event (EvMessage msg) s = (s, [])"

text \<open>Events delivered one after the other: the service afterwards and the timers armed.\<close>

fun deliver :: "Event list \<Rightarrow> Service \<Rightarrow> Service \<times> Timer list" where
  "deliver [] s = (s, [])"
| "deliver (e # evs) s =
     (let (s1, timers1) = handle_event e s;
          (s2, timers2) = deliver evs s1
      in (s2, timers1 @ timers2))"

text \<open>The constructor: a service with the client and no flag set, and the timer it arms.\<close>

definition construct :: "Client \<Rightarrow> Service \<times> Timer list" where
  "construct c =
     (\<lparr>client = Some c, isReady = False, isAuthenticated = False, qrCode = None\<rparr>,
      [AutoInitializeTimer])"

subsection \<open>isClientInitialized, isConnected, getQRCode\<close>

definition isClientInitialized :: "Service \<Rightarrow> bool" where
  "isClientInitialized s =
     (case client s of
        None \<Rightarrow> False
      | Some c \<Rightarrow>
          (case try_catch
                  (case pupPage c of
                     Inl e \<Rightarrow> Inl e
                   | Inr page \<Rightarrow>
                       if page = Truthy then Inr True
                       else (case info c of
                               Inl e \<Rightarrow> Inl e
                             | Inr clientState \<Rightarrow> Inr (clientState \<noteq> Nullish)))
                  (\<lambda>e. Inr False) of
             Inl e \<Rightarrow> False
           | Inr b \<Rightarrow> b))"

text \<open>
  \<open>isConnected\<close> returns the answer and the service, whose \<open>isAuthenticated\<close> flag the last
  branch may set; \<open>Inl\<close> would be an exception that escapes.
\<close>

definition isConnected :: "Service \<Rightarrow> string + (bool \<times> Service)" where
  "isConnected s =
     (case client s of
        None \<Rightarrow> Inr (False, s)
      | Some c \<Rightarrow>
          if isReady s then Inr (True, s)
          else if isAuthenticated s then
            try_catch
              (case info c of
                 Inl e \<Rightarrow> Inl e
               | Inr clientInfo \<Rightarrow>
                   if clientInfo \<noteq> Nullish then Inr (True, s) else Inr (True, s))
              (\<lambda>e. Inr (isAuthenticated s, s))
          else
            (case try_catch
                    (if isClientInitialized s then
                       (case info c of
                          Inl e \<Rightarrow> Inl e
                        | Inr clientInfo \<Rightarrow>
                            if clientInfo = Truthy
                            then Inr (Some (True, s\<lparr>isAuthenticated := True\<rparr>))
                            else Inr None)
                     else Inr None)
                    (\<lambda>e. Inr None) of
               Inl e \<Rightarrow> Inl e
             | Inr (Some r) \<Rightarrow> Inr r
             | Inr None \<Rightarrow> Inr (False, s)))"

definition getQRCode :: "Service \<Rightarrow> string option" where
  "getQRCode s = qrCode s"

subsection \<open>initialize\<close>

text \<open>
  \<open>initialize\<close> is an \<open>async\<close> method of a service shared by all requests.  Between two
  \<open>await\<close>s it runs without interruption; while it awaits, other code runs on the same
  service: the handlers of delivered events, other requests, and the callbacks of timers,
  among them further calls of \<open>initialize\<close>.  The surroundings of a call therefore give,
  for each \<open>await\<close>, how the service has changed when the call goes on: while
  \<open>client.initialize()\<close> is awaited, while \<open>client.destroy()\<close> is awaited, and during each
  one-second wait of the two polling loops.  They also give whether each call of
  \<open>client.initialize()\<close> resolves (\<open>None\<close>) or rejects with a message, and the client built
  when the session is recreated.
\<close>

record InitEnv =
  initOutcome :: "string option"
  duringInit :: "Service \<Rightarrow> Service"
  duringWait :: "nat \<Rightarrow> Service \<Rightarrow> Service"
  duringDestroy :: "Service \<Rightarrow> Service"
  newClient :: Client
  reinitOutcome :: "string option"
  duringReinit :: "Service \<Rightarrow> Service"
  duringRewait :: "nat \<Rightarrow> Service \<Rightarrow> Service"

record InitResult =
  res_qrCode :: "string option"
  res_ready :: bool

text \<open>
  A run of \<open>initialize\<close>: what it returns or throws, the service when it returns, the number
  of one-second waits it made and the number of calls of \<open>client.initialize()\<close> it made
  itself.
\<close>

record InitRun =
  outcome :: "string + InitResult"
  after :: Service
  waited :: nat
  inits :: nat

text \<open>
  The polling loop \<open>for (let i = 0; i < n; i++)\<close> with \<open>k\<close> iterations left at index \<open>i\<close>:
  wait one second, then return if the service is ready or has a QR code.  \<open>None\<close> when the
  loop runs out.
\<close>

fun poll :: "nat \<Rightarrow> nat \<Rightarrow> (nat \<Rightarrow> Service \<Rightarrow> Service) \<Rightarrow> Service \<Rightarrow> InitResult option \<times> Service \<times> nat" where
  "poll 0 i during s = (None, s, i)"
| "poll (Suc k) i during s =
     (let s' = during i s
      in if isReady s' then (Some \<lparr>res_qrCode = None, res_ready = True\<rparr>, s', Suc i)
         else if truthy (qrCode s')
           then (Some \<lparr>res_qrCode = qrCode s', res_ready = False\<rparr>, s', Suc i)
         else poll k (Suc i) during s')"

text \<open>The value returned after a loop: the hit, or the state the service is left in.\<close>

definition poll_result :: "InitResult option \<times> Service \<times> nat \<Rightarrow> InitResult" where
  "poll_result r =
     (case r of
        (Some res, s', w) \<Rightarrow> res
      | (None, s', w) \<Rightarrow>
          \<lparr>res_qrCode = (if truthy (qrCode s') then qrCode s' else None),
           res_ready = isReady s'\<rparr>)"

definition is_session_error :: "string \<Rightarrow> bool" where
  "is_session_error e =
     (str_includes e ''destroyed'' \<or> str_includes e ''Session'' \<or> str_includes e ''Target closed'')"

text \<open>
  The statement after the first \<open>await\<close>, run when the client was not yet initialized:
  \<open>this.qrCode = null\<close>.
\<close>

definition after_client_initialize :: "Service \<Rightarrow> Service" where
  "after_client_initialize s = s\<lparr>qrCode := None\<rparr>"

text \<open>
  The \<open>catch\<close> block of \<open>initialize\<close>, entered with the error and the service.  The
  client is destroyed if there is one (an error of \<open>destroy\<close> is ignored), a new one is
  built and initialized, and the second loop polls ten times.
\<close>

definition initialize_recover :: "InitEnv \<Rightarrow> string \<Rightarrow> Service \<Rightarrow> nat \<Rightarrow> InitRun" where
  "initialize_recover env e s n =
     (if is_session_error e then
        (let s1 = (if client s \<noteq> None then duringDestroy env s else s);
             s2 = duringReinit env (s1\<lparr>client := Some (newClient env)\<rparr>)
         in case reinitOutcome env of
              Some recreateError \<Rightarrow>
                \<lparr>outcome = Inl recreateError, after = s2, waited = 0, inits = Suc n\<rparr>
            | None \<Rightarrow>
                (let r = poll 10 0 (duringRewait env) s2
                 in \<lparr>outcome = Inr (poll_result r), after = fst (snd r),
                     waited = snd (snd r), inits = Suc n\<rparr>))
      else \<lparr>outcome = Inl e, after = s, waited = 0, inits = n\<rparr>)"

definition initialize :: "InitEnv \<Rightarrow> Service \<Rightarrow> InitRun" where
  "initialize env s =
     (case client s of
        None \<Rightarrow>
          \<lparr>outcome = Inl ''WhatsApp client not initialized'', after = s, waited = 0, inits = 0\<rparr>
      | Some c \<Rightarrow>
          if isReady s then
            \<lparr>outcome = Inr \<lparr>res_qrCode = None, res_ready = True\<rparr>, after = s, waited = 0,
             inits = 0\<rparr>
          else if \<not> isClientInitialized s then
            (let s1 = duringInit env s
             in case initOutcome env of
                  Some e \<Rightarrow> initialize_recover env e s1 1
                | None \<Rightarrow>
                    (let r = poll 20 0 (duringWait env) (after_client_initialize s1)
                     in \<lparr>outcome = Inr (poll_result r), after = fst (snd r),
                         waited = snd (snd r), inits = 1\<rparr>))
          else if isReady s then
            \<lparr>outcome = Inr \<lparr>res_qrCode = None, res_ready = True\<rparr>, after = s, waited = 0,
             inits = 0\<rparr>
          else if truthy (qrCode s) then
            \<lparr>outcome = Inr \<lparr>res_qrCode = qrCode s, res_ready = False\<rparr>, after = s, waited = 0,
             inits = 0\<rparr>
          else
            (let r = poll 20 0 (duringWait env) s
             in \<lparr>outcome = Inr (poll_result r), after = fst (snd r), waited = snd (snd r),
                 inits = 0\<rparr>))"

text \<open>
  The callbacks of the timers.  The reconnect timer calls \<open>initialize\<close> when the service is
  not ready and has a client; \<open>autoInitialize\<close> calls it when, besides, the client is not
  yet initialized.  A rejection of the call is caught and logged.  \<open>None\<close> when the
  callback does nothing.  Such a call runs while the call that was first is waiting: to
  that one, its statements are part of what happens during its waits.
\<close>

fun timer_calls_initialize :: "Timer \<Rightarrow> Service \<Rightarrow> bool" where
  "timer_calls_initialize ReconnectTimer s = (\<not> isReady s \<and> client s \<noteq> None)"
| "timer_calls_initialize AutoInitializeTimer s =
     (client s \<noteq> None \<and> \<not> isReady s \<and> \<not> isClientInitialized s)"

definition timer_callback :: "InitEnv \<Rightarrow> Timer \<Rightarrow> Service \<Rightarrow> InitRun option" where
  "timer_callback env t s = (if timer_calls_initialize t s then Some (initialize env s) else None)"





subsection \<open>Message operations\<close>

definition not_connected_error :: string where
  "not_connected_error = ''WhatsApp not connected. Please scan QR code first.''"

text \<open>\<open>xs.slice(0, n)\<close> for an integer \<open>n\<close>: a negative \<open>n\<close> counts from the end.\<close>

definition slice0 :: "'a list \<Rightarrow> int \<Rightarrow> 'a list" where
  "slice0 xs n = (if 0 \<le> n then take (nat n) xs else take (nat (int (length xs) + n)) xs)"

text \<open>
  \<open>messages.sort((a, b) => b.timestamp.getTime() - a.timestamp.getTime())\<close>.  The
  comparator gives \<open>NaN\<close> (here \<open>None\<close>) when one of the two is an Invalid Date, and
  \<open>Array.prototype.sort\<close> takes \<open>NaN\<close> as \<open>+0\<close>: the two count as equal.  The sort is stable.
  On a comparator that orders the elements consistently every implementation returns the
  same list; otherwise ECMAScript leaves the order to the implementation, and the model
  inserts the elements one by one from the right.
\<close>

definition compare_newest_first :: "WhatsAppMessage \<Rightarrow> WhatsAppMessage \<Rightarrow> int option" where
  "compare_newest_first a b =
     (case (timestamp a, timestamp b) of
        (Some ta, Some tb) \<Rightarrow> Some (tb - ta)
      | _ \<Rightarrow> None)"

definition sort_compare :: "('a \<Rightarrow> 'a \<Rightarrow> int option) \<Rightarrow> 'a \<Rightarrow> 'a \<Rightarrow> int" where
  "sort_compare comparefn x y = (case comparefn x y of None \<Rightarrow> 0 | Some v \<Rightarrow> v)"

fun insert_sorted :: "('a \<Rightarrow> 'a \<Rightarrow> int option) \<Rightarrow> 'a \<Rightarrow> 'a list \<Rightarrow> 'a list" where
  "insert_sorted comparefn x [] = [x]"
| "insert_sorted comparefn x (y # ys) =
     (if sort_compare comparefn x y \<le> 0 then x # y # ys
      else y # insert_sorted comparefn x ys)"

definition array_sort :: "('a \<Rightarrow> 'a \<Rightarrow> int option) \<Rightarrow> 'a list \<Rightarrow> 'a list" where
  "array_sort comparefn xs = foldr (insert_sorted comparefn) xs []"

definition sort_newest_first :: "WhatsAppMessage list \<Rightarrow> WhatsAppMessage list" where
  "sort_newest_first ms = array_sort compare_newest_first ms"

text \<open>
  A list is in descending order of time stamp when each message is at least as new as
  every later one; no comparison with an Invalid Date holds.
\<close>

definition newest_first :: "WhatsAppMessage list \<Rightarrow> bool" where
  "newest_first ms =
     sorted_wrt (\<lambda>a b. case (timestamp a, timestamp b) of
                          (Some ta, Some tb) \<Rightarrow> tb \<le> ta
                        | _ \<Rightarrow> False) ms"

text \<open>\<open>a || b\<close> on optional strings.\<close>

definition or_else :: "string option \<Rightarrow> string option \<Rightarrow> string option" where
  "or_else a b = (if truthy a then a else b)"

text \<open>The \<open>catch\<close> block of the two listing operations that reset the flags.\<close>

definition reset_on_connection_error :: "string \<Rightarrow> Service \<Rightarrow> Service" where
  "reset_on_connection_error e s =
     (if str_includes e ''not connected'' \<or> str_includes e ''Session''
      then s\<lparr>isReady := False, isAuthenticated := False\<rparr>
      else s)"

definition displayName :: "Chat \<Rightarrow> string" where
  "displayName chat =
     (case or_else (or_else (chat_name chat) (chat_id_user chat)) (Some ''Unknown'') of
        Some n \<Rightarrow> n
      | None \<Rightarrow> ''Unknown'')"

text \<open>The message record that \<open>getRecentMessages\<close> builds from the last message of a chat.\<close>

definition recent_record :: "Chat \<Rightarrow> RawMessage \<Rightarrow> WhatsAppMessage" where
  "recent_record chat lastMessage =
     \<lparr>mid = rm_id lastMessage,
      mfrom = (if displayName chat \<noteq> [] then displayName chat else ''Unknown''),
      body = rm_body lastMessage,
      timestamp = date_of_seconds (rm_timestamp lastMessage),
      isGroup = chat_isGroup chat,
      contactName = (if displayName chat \<noteq> ''Unknown'' then Some (displayName chat) else None)\<rparr>"

text \<open>
  A call \<open>chat.fetchMessages({limit})\<close>: the chat and the limit.  \<open>getRecentMessages\<close>
  returns, besides its result and the service, the calls of this kind that it made, in order.
\<close>

type_synonym Fetch = "Chat \<times> int"

text \<open>
  One iteration of the loop of \<open>getRecentMessages\<close>: the message a chat adds, if any, and
  the fetch made.  A chat that the contact filter skips is not fetched.
\<close>

definition recent_of_chat :: "string option \<Rightarrow> Chat \<Rightarrow> (string + WhatsAppMessage option) \<times> Fetch list" where
  "recent_of_chat contactName_arg chat =
     (if truthy contactName_arg \<and> toLowerCase (displayName chat) \<noteq> [] \<and>
         \<not> str_includes (toLowerCase (displayName chat)) (toLowerCase (the contactName_arg))
      then (Inr None, [])
      else (case fetchMessages chat 1 of
              Inl e \<Rightarrow> (Inl e, [(chat, 1)])
            | Inr chatMessages \<Rightarrow>
                (case chatMessages of
                   [] \<Rightarrow> (Inr None, [(chat, 1)])
                 | lastMessage # _ \<Rightarrow> (Inr (Some (recent_record chat lastMessage)), [(chat, 1)]))))"

fun recent_loop ::
  "string option \<Rightarrow> Chat list \<Rightarrow> WhatsAppMessage list \<Rightarrow> Fetch list \<Rightarrow>
     (string + WhatsAppMessage list) \<times> Fetch list" where
  "recent_loop contactName_arg [] messages fetches = (Inr messages, fetches)"
| "recent_loop contactName_arg (chat # chats) messages fetches =
     (case recent_of_chat contactName_arg chat of
        (Inl e, fs) \<Rightarrow> (Inl e, fetches @ fs)
      | (Inr None, fs) \<Rightarrow> recent_loop contactName_arg chats messages (fetches @ fs)
      | (Inr (Some m), fs) \<Rightarrow> recent_loop contactName_arg chats (messages @ [m]) (fetches @ fs))"

text \<open>
  The operations return what they return or throw, with the service afterwards.  The
  parameter \<open>limit_arg\<close> is \<open>None\<close> when the caller leaves the limit out (default 10).
\<close>

definition limit_or_default :: "int option \<Rightarrow> int" where
  "limit_or_default limit_arg = (case limit_arg of None \<Rightarrow> 10 | Some l \<Rightarrow> l)"

definition getRecentMessages ::
  "string option \<Rightarrow> int option \<Rightarrow> Service \<Rightarrow>
     (string + WhatsAppMessage list) \<times> Service \<times> Fetch list" where
  "getRecentMessages contactName_arg limit_arg s =
     (let lim = limit_or_default limit_arg
      in case client s of
           None \<Rightarrow> (Inl not_connected_error, s, [])
         | Some c \<Rightarrow>
             if \<not> isReady s then (Inl not_connected_error, s, [])
             else (case getChats c of
                     Inl e \<Rightarrow> (Inl e, reset_on_connection_error e s, [])
                   | Inr chats \<Rightarrow>
                       (case recent_loop contactName_arg (slice0 chats lim) [] [] of
                          (Inl e, fetches) \<Rightarrow> (Inl e, reset_on_connection_error e s, fetches)
                        | (Inr messages, fetches) \<Rightarrow>
                            (Inr (slice0 (sort_newest_first messages) lim), s, fetches))))"

text \<open>The message record that \<open>getUnreadMessages\<close> builds from a message of a chat.\<close>

definition unread_record :: "Chat \<Rightarrow> RawMessage \<Rightarrow> WhatsAppMessage" where
  "unread_record chat m =
     (let messageFrom = (case rm_from m of Some f \<Rightarrow> f | None \<Rightarrow> []);
          senderName =
            (case or_else (or_else (or_else (or_else (rm_notifyName m) (rm_fromName m))
                      (chat_name chat)) (Some messageFrom)) (Some ''Unknown'') of
               Some n \<Rightarrow> n
             | None \<Rightarrow> ''Unknown'')
      in \<lparr>mid = rm_id m, mfrom = senderName, body = rm_body m,
          timestamp = date_of_seconds (rm_timestamp m), isGroup = chat_isGroup chat,
          contactName = (if senderName \<noteq> ''Unknown'' \<and> senderName \<noteq> messageFrom
                         then Some senderName else None)\<rparr>)"

definition is_getContact_error :: "string \<Rightarrow> bool" where
  "is_getContact_error e = (str_includes e ''getIsMyContact'' \<or> str_includes e ''ContactMethods'')"

text \<open>
  One iteration of the loop of \<open>getUnreadMessages\<close>: the messages a chat adds.  The inner
  \<open>try\<close> skips the chat when \<open>fetchMessages\<close> fails on \<open>getContact\<close> and throws any other
  error again; the outer \<open>try\<close> of the iteration catches that one and goes on as well.
\<close>

definition unread_of_chat :: "Chat \<Rightarrow> string + WhatsAppMessage list" where
  "unread_of_chat chat =
     (if 0 < unreadCount chat then
        try_catch
          (case try_catch
                  (case fetchMessages chat (unreadCount chat) of
                     Inl e \<Rightarrow> Inl e
                   | Inr chatMessages \<Rightarrow> Inr (Some chatMessages))
                  (\<lambda>fetchError. if is_getContact_error fetchError then Inr None
                                 else Inl fetchError) of
             Inl e \<Rightarrow> Inl e
           | Inr None \<Rightarrow> Inr []
           | Inr (Some chatMessages) \<Rightarrow>
               Inr (map (unread_record chat) (slice0 chatMessages (unreadCount chat))))
          (\<lambda>chatError. Inr [])
      else Inr [])"

fun unread_loop :: "Chat list \<Rightarrow> WhatsAppMessage list \<Rightarrow> string + WhatsAppMessage list" where
  "unread_loop [] unreadMessages = Inr unreadMessages"
| "unread_loop (chat # chats) unreadMessages =
     (case unread_of_chat chat of
        Inl e \<Rightarrow> Inl e
      | Inr ms \<Rightarrow> unread_loop chats (unreadMessages @ ms))"

definition getUnreadMessages :: "Service \<Rightarrow> (string + WhatsAppMessage list) \<times> Service" where
  "getUnreadMessages s =
     (case client s of
        None \<Rightarrow> (Inl not_connected_error, s)
      | Some c \<Rightarrow>
          (case isConnected s of
             Inl e \<Rightarrow> (Inl e, s)
           | Inr (False, s1) \<Rightarrow> (Inl not_connected_error, s1)
           | Inr (True, s1) \<Rightarrow>
               (case (case getChats c of
                        Inl e \<Rightarrow> Inl e
                      | Inr chats \<Rightarrow> unread_loop chats []) of
                  Inl e \<Rightarrow> (Inl e, reset_on_connection_error e s1)
                | Inr unreadMessages \<Rightarrow> (Inr (sort_newest_first unreadMessages), s1))))"

text \<open>
  The search for the chat of a contact, shared by \<open>sendMessage\<close> and
  \<open>getMessagesFromContact\<close>: first by chat name, then through the contact list, whose
  failure is caught and counts as no match.  \<open>Inl\<close> when \<open>getChats\<close> throws.
\<close>

definition chat_name_matches :: "string \<Rightarrow> Chat \<Rightarrow> bool" where
  "chat_name_matches lowerContactName chat =
     (case chat_name chat of
        None \<Rightarrow> False
      | Some n \<Rightarrow> str_includes (toLowerCase n) lowerContactName)"

definition contact_matches :: "string \<Rightarrow> Contact \<Rightarrow> bool" where
  "contact_matches contactName_arg ct =
     ((case pushname ct of
         None \<Rightarrow> False
       | Some pn \<Rightarrow> str_includes (toLowerCase pn) (toLowerCase contactName_arg)) \<or>
      str_includes (number ct) contactName_arg)"

definition find_target_chat :: "Client \<Rightarrow> string \<Rightarrow> string + Chat option" where
  "find_target_chat c contactName_arg =
     (case getChats c of
        Inl e \<Rightarrow> Inl e
      | Inr chats \<Rightarrow>
          (case find (chat_name_matches (toLowerCase contactName_arg)) chats of
             Some targetChat \<Rightarrow> Inr (Some targetChat)
           | None \<Rightarrow>
               try_catch
                 (case getContacts c of
                    Inl e \<Rightarrow> Inl e
                  | Inr contacts \<Rightarrow>
                      (case find (contact_matches contactName_arg) contacts of
                         None \<Rightarrow> Inr None
                       | Some ct \<Rightarrow>
                           (case getChatById c (contact_id_serialized ct) of
                              Inl e \<Rightarrow> Inl e
                            | Inr targetChat \<Rightarrow> Inr (Some targetChat))))
                 (\<lambda>contactError. Inr None)))"

definition dquote :: string where
  "dquote = [CHR 0x22]"

definition contact_not_found :: "string \<Rightarrow> string" where
  "contact_not_found contactName_arg = ''Contact '' @ dquote @ contactName_arg @ dquote @ '' not found''"

text \<open>The calls that send something through the client: a message or a reply.\<close>

datatype ClientCall = CallSendMessage string string | CallReply string string

definition sendMessage ::
  "string \<Rightarrow> string \<Rightarrow> Service \<Rightarrow> (string + bool) \<times> Service \<times> ClientCall list" where
  "sendMessage contactName_arg text s =
     (case client s of
        None \<Rightarrow> (Inl not_connected_error, s, [])
      | Some c \<Rightarrow>
          (case isConnected s of
             Inl e \<Rightarrow> (Inl e, s, [])
           | Inr (False, s1) \<Rightarrow> (Inl not_connected_error, s1, [])
           | Inr (True, s1) \<Rightarrow>
               (case find_target_chat c contactName_arg of
                  Inl e \<Rightarrow> (Inl e, s1, [])
                | Inr None \<Rightarrow> (Inl (contact_not_found contactName_arg), s1, [])
                | Inr (Some targetChat) \<Rightarrow>
                    (case client_sendMessage c (chat_id_serialized targetChat) text of
                       Some e \<Rightarrow>
                         (Inl e, s1, [CallSendMessage (chat_id_serialized targetChat) text])
                     | None \<Rightarrow>
                         (Inr True, s1, [CallSendMessage (chat_id_serialized targetChat) text])))))"

definition message_not_found :: "string \<Rightarrow> string" where
  "message_not_found messageId = ''Message with ID '' @ dquote @ messageId @ dquote @ '' not found''"

fun reply_loop :: "string \<Rightarrow> string \<Rightarrow> Chat list \<Rightarrow> (string + bool) \<times> ClientCall list" where
  "reply_loop messageId replyText [] = (Inl (message_not_found messageId), [])"
| "reply_loop messageId replyText (chat # chats) =
     (case fetchMessages chat 50 of
        Inl e \<Rightarrow> (Inl e, [])
      | Inr messages \<Rightarrow>
          (case find (\<lambda>m. rm_id m = messageId) messages of
             None \<Rightarrow> reply_loop messageId replyText chats
           | Some m \<Rightarrow>
               (case rm_reply m replyText of
                  Some e \<Rightarrow> (Inl e, [CallReply messageId replyText])
                | None \<Rightarrow> (Inr True, [CallReply messageId replyText]))))"

definition replyToMessage ::
  "string \<Rightarrow> string \<Rightarrow> Service \<Rightarrow> (string + bool) \<times> Service \<times> ClientCall list" where
  "replyToMessage messageId replyText s =
     (case client s of
        None \<Rightarrow> (Inl not_connected_error, s, [])
      | Some c \<Rightarrow>
          (case isConnected s of
             Inl e \<Rightarrow> (Inl e, s, [])
           | Inr (False, s1) \<Rightarrow> (Inl not_connected_error, s1, [])
           | Inr (True, s1) \<Rightarrow>
               (case getChats c of
                  Inl e \<Rightarrow> (Inl e, s1, [])
                | Inr chats \<Rightarrow>
                    (let r = reply_loop messageId replyText chats in (fst r, s1, snd r)))))"

definition contact_record :: "Chat \<Rightarrow> string \<Rightarrow> RawMessage \<Rightarrow> WhatsAppMessage" where
  "contact_record targetChat chatName m =
     \<lparr>mid = rm_id m, mfrom = chatName, body = rm_body m,
      timestamp = date_of_seconds (rm_timestamp m), isGroup = chat_isGroup targetChat,
      contactName = (if chatName \<noteq> ''Unknown'' then Some chatName else None)\<rparr>"

definition getMessagesFromContact ::
  "string \<Rightarrow> int option \<Rightarrow> Service \<Rightarrow> (string + WhatsAppMessage list) \<times> Service" where
  "getMessagesFromContact contactName_arg limit_arg s =
     (let lim = limit_or_default limit_arg
      in case client s of
           None \<Rightarrow> (Inl not_connected_error, s)
         | Some c \<Rightarrow>
             (case isConnected s of
                Inl e \<Rightarrow> (Inl e, s)
              | Inr (False, s1) \<Rightarrow> (Inl not_connected_error, s1)
              | Inr (True, s1) \<Rightarrow>
                  (case find_target_chat c contactName_arg of
                     Inl e \<Rightarrow> (Inl e, s1)
                   | Inr None \<Rightarrow> (Inl (contact_not_found contactName_arg), s1)
                   | Inr (Some targetChat) \<Rightarrow>
                       (case fetchMessages targetChat lim of
                          Inl e \<Rightarrow> (Inl e, s1)
                        | Inr messages \<Rightarrow>
                            (let chatName =
                                   (if truthy (chat_name targetChat) then the (chat_name targetChat)
                                    else contactName_arg)
                             in (Inr (map (contact_record targetChat chatName) messages), s1))))))"

section \<open>The command executor (handleWhatsAppCommand in src/app/api/chat/route.ts)\<close>

function show_nat :: "nat \<Rightarrow> string" where
  "show_nat n =
     (if n < 10 then [char_of (48 + n)] else show_nat (n div 10) @ [char_of (48 + n mod 10)])"
  by pat_completeness auto
termination
  by (relation "measure id") auto

text \<open>
  \<open>getTimeAgo\<close>, with the current time in milliseconds as a parameter.  On an Invalid
  Date every difference is \<open>NaN\<close> and every comparison fails, so the last branch is taken.
\<close>

definition plural :: "int \<Rightarrow> string" where
  "plural n = (if 1 < n then ''s'' else [])"

definition getTimeAgo :: "int \<Rightarrow> int option \<Rightarrow> string" where
  "getTimeAgo now date =
     (case date of
        None \<Rightarrow> ''NaN day ago''
      | Some t \<Rightarrow>
          (let diffMs = now - t;
               diffMins = diffMs div 60000;
               diffHours = diffMs div 3600000;
               diffDays = diffMs div 86400000
           in if diffMins < 1 then ''just now''
              else if diffMins < 60
                then show_nat (nat diffMins) @ '' minute'' @ plural diffMins @ '' ago''
              else if diffHours < 24
                then show_nat (nat diffHours) @ '' hour'' @ plural diffHours @ '' ago''
              else show_nat (nat diffDays) @ '' day'' @ plural diffDays @ '' ago''))"

definition newline :: string where
  "newline = [CHR 0x0A]"

definition not_connected_reply :: string where
  "not_connected_reply =
     ''WhatsApp is not connected. Please connect WhatsApp first by saying '' @ dquote @
     ''connect WhatsApp'' @ dquote @ '' or scanning the QR code in settings.''"

definition not_connected_reply_caught :: string where
  "not_connected_reply_caught =
     ''WhatsApp is not connected. Please connect WhatsApp first by saying '' @ dquote @
     ''connect WhatsApp'' @ dquote @ '' or scanning the QR code.''"

definition getContact_trouble_reply :: string where
  "getContact_trouble_reply =
     ''I'' @ [CHR 0x27] @ ''m having trouble reading some messages due to a WhatsApp Web update. '' @
     ''Some chats may not be accessible, but I can still help with sending and replying to '' @
     ''messages. Please try asking about specific contacts or use send/reply commands.''"

definition no_new_messages_reply :: string where
  "no_new_messages_reply = ''You don'' @ [CHR 0x27] @ ''t have any new messages right now.''"

definition not_sure_reply :: string where
  "not_sure_reply =
     ''I'' @ [CHR 0x27] @ ''m not sure what you want me to do with WhatsApp. '' @
     ''Try asking to check messages, send a message, or reply to someone.''"

text \<open>The prompt returned for a send command that has a target and no message.\<close>

definition clarification_prompt :: "string \<Rightarrow> string" where
  "clarification_prompt tgt =
     ''What would you like to send to '' @ tgt @
     ''? Please tell me the message content. For example: '' @ dquote @ ''send hello to '' @ tgt @
     dquote @ '' or '' @ dquote @ ''send to '' @ tgt @ '' saying hello there'' @ dquote @ ''.''"

definition check_line :: "int \<Rightarrow> WhatsAppMessage \<Rightarrow> string" where
  "check_line now msg =
     ''From '' @ mfrom msg @ '': '' @ dquote @ body msg @ dquote @ '' ('' @
     getTimeAgo now (timestamp msg) @ '')'' @ newline"

definition check_response :: "int \<Rightarrow> WhatsAppMessage list \<Rightarrow> string" where
  "check_response now messages =
     (if length messages = 0 then no_new_messages_reply
      else ''You have '' @ show_nat (length messages) @ '' new message'' @
           plural (int (length messages)) @ '':'' @ newline @ newline @
           concat (map (check_line now) (slice0 messages 5)) @
           (if 5 < length messages
            then newline @ ''And '' @ show_nat (length messages - 5) @ '' more message'' @
                 plural (int (length messages) - 5) @ ''.''
            else []))"

definition read_line :: "int \<Rightarrow> WhatsAppMessage \<Rightarrow> string" where
  "read_line now msg =
     dquote @ body msg @ dquote @ '' ('' @ getTimeAgo now (timestamp msg) @ '')'' @ newline"

text \<open>
  The body of the \<open>try\<close> block: the response, or the error that reaches the \<open>catch\<close>
  block, with the service afterwards and the messages and replies sent through the client.
  The fetches that \<open>getRecentMessages\<close> reports are not used here.
\<close>

definition handle_actions ::
  "ParsedCommand \<Rightarrow> int \<Rightarrow> Service \<Rightarrow> (string + string) \<times> Service \<times> ClientCall list" where
  "handle_actions command now s =
     (if action command = Check then
        (let recent = (\<lambda>contactName_arg limit_arg.
                         case getRecentMessages contactName_arg limit_arg s of
                           (result, s1, fetches) \<Rightarrow> (result, s1));
             r = (case filters command of
                    None \<Rightarrow> recent None (Some 10)
                  | Some f \<Rightarrow>
                      if unread f = Some True then getUnreadMessages s
                      else recent (contact f)
                             (Some (case limit f of
                                      None \<Rightarrow> 10
                                    | Some l \<Rightarrow> if l = 0 then 10 else l)))
         in case fst r of
              Inr messages \<Rightarrow> (Inr (check_response now messages), snd r, [])
            | Inl e \<Rightarrow>
                if is_getContact_error e then (Inr getContact_trouble_reply, snd r, [])
                else (Inl e, snd r, []))
      else if action command = Send \<and> truthy (target command) then
        (if \<not> truthy (message command)
         then (Inr (clarification_prompt (the (target command))), s, [])
         else (case sendMessage (the (target command)) (the (message command)) s of
                 (Inl e, s1, calls) \<Rightarrow> (Inl e, s1, calls)
               | (Inr ok, s1, calls) \<Rightarrow>
                   (Inr (''Message sent to '' @ the (target command) @ '': '' @ dquote @
                         the (message command) @ dquote), s1, calls)))
      else if action command = Reply \<and> truthy (message command) then
        (if truthy (target command) then
           (case getMessagesFromContact (the (target command)) (Some 1) s of
              (Inl e, s1) \<Rightarrow> (Inl e, s1, [])
            | (Inr [], s1) \<Rightarrow>
                (Inr (''No recent messages from '' @ the (target command) @ '' to reply to.''),
                 s1, [])
            | (Inr (m # ms), s1) \<Rightarrow>
                (case replyToMessage (mid m) (the (message command)) s1 of
                   (Inl e, s2, calls) \<Rightarrow> (Inl e, s2, calls)
                 | (Inr ok, s2, calls) \<Rightarrow>
                     (Inr (''Replied to '' @ the (target command) @ '': '' @ dquote @
                           the (message command) @ dquote), s2, calls)))
         else (Inr ''Please specify who to reply to.'', s, []))
      else if action command = Read \<and> truthy (target command) then
        (case getMessagesFromContact (the (target command)) (Some 10) s of
           (Inl e, s1) \<Rightarrow> (Inl e, s1, [])
         | (Inr messages, s1) \<Rightarrow>
             if length messages = 0
             then (Inr (''No messages found from '' @ the (target command) @ ''.''), s1, [])
             else (Inr (''Messages from '' @ the (target command) @ '':'' @ newline @ newline @
                        concat (map (read_line now) messages)), s1, []))
      else (Inr not_sure_reply, s, []))"

text \<open>
  \<open>handleWhatsAppCommand\<close>: the response (\<open>Inl\<close> would be an exception that escapes), the
  service afterwards and the messages and replies sent through the client.
\<close>

definition handleWhatsAppCommand ::
  "ParsedCommand \<Rightarrow> int \<Rightarrow> Service \<Rightarrow> (string + string) \<times> Service \<times> ClientCall list" where
  "handleWhatsAppCommand command now s =
     (case isConnected s of
        Inl e \<Rightarrow> (Inl e, s, [])
      | Inr (False, s1) \<Rightarrow> (Inr not_connected_reply, s1, [])
      | Inr (True, s1) \<Rightarrow>
          (case handle_actions command now s1 of
             (Inr response, s2, calls) \<Rightarrow> (Inr response, s2, calls)
           | (Inl e, s2, calls) \<Rightarrow>
               if str_includes e ''not connected'' then (Inr not_connected_reply_caught, s2, calls)
               else (Inr (''Sorry, I couldn'' @ [CHR 0x27] @
                          ''t complete that WhatsApp action: '' @ e), s2, calls)))"

section \<open>Example clients and services\<close>

text \<open>A client whose \<open>info\<close> field throws when it is read.\<close>

definition probe_failing_client :: Client where
  "probe_failing_client =
     \<lparr>pupPage = Inr Truthy, info = Inl ''Target closed'', getChats = Inr [], getContacts = Inr [],
      getChatById = (\<lambda>chatId. Inl ''chat not found''), client_sendMessage = (\<lambda>chatId text. None)\<rparr>"

text \<open>A client with a session and no chats.\<close>

definition idle_client :: Client where
  "idle_client =
     \<lparr>pupPage = Inr Truthy, info = Inr Truthy, getChats = Inr [], getContacts = Inr [],
      getChatById = (\<lambda>chatId. Inl ''chat not found''), client_sendMessage = (\<lambda>chatId text. None)\<rparr>"

text \<open>The service after the \<open>ready\<close> event.\<close>

definition ready_service :: "Client \<Rightarrow> Service" where
  "ready_service c = \<lparr>client = Some c, isReady = True, isAuthenticated = True, qrCode = None\<rparr>"

text \<open>A client that has not been initialized, and the service as the constructor leaves it.\<close>

definition uninitialized_client :: Client where
  "uninitialized_client =
     \<lparr>pupPage = Inr Nullish, info = Inr Nullish, getChats = Inr [], getContacts = Inr [],
      getChatById = (\<lambda>chatId. Inl ''chat not found''), client_sendMessage = (\<lambda>chatId text. None)\<rparr>"

definition new_service :: "Client \<Rightarrow> Service" where
  "new_service c = fst (construct c)"

text \<open>Messages and the chats that hold them.  The last one is dated beyond the range of Date.\<close>

definition msg_old :: RawMessage where
  "msg_old = \<lparr>rm_id = ''m1'', rm_body = ''see you at five'', rm_timestamp = 100,
              rm_from = Some ''111@c.us'', rm_notifyName = None, rm_fromName = None,
              rm_reply = (\<lambda>text. None)\<rparr>"

definition msg_new :: RawMessage where
  "msg_new = \<lparr>rm_id = ''m2'', rm_body = ''running late'', rm_timestamp = 200,
              rm_from = Some ''111@c.us'', rm_notifyName = None, rm_fromName = None,
              rm_reply = (\<lambda>text. None)\<rparr>"

definition msg_zoe :: RawMessage where
  "msg_zoe = \<lparr>rm_id = ''m3'', rm_body = ''hello'', rm_timestamp = 150,
              rm_from = Some ''222@c.us'', rm_notifyName = None, rm_fromName = None,
              rm_reply = (\<lambda>text. None)\<rparr>"

definition msg_far :: RawMessage where
  "msg_far = \<lparr>rm_id = ''m4'', rm_body = ''from far away'', rm_timestamp = 9000000000000,
              rm_from = Some ''444@c.us'', rm_notifyName = None, rm_fromName = None,
              rm_reply = (\<lambda>text. None)\<rparr>"

text \<open>A chat with two messages; its \<open>fetchMessages\<close> returns the latest ones, oldest first.\<close>

definition chat_mike :: Chat where
  "chat_mike = \<lparr>chat_name = Some ''Mike'', chat_id_user = Some ''111'',
                chat_id_serialized = ''111@c.us'', chat_isGroup = False, unreadCount = 2,
                fetchMessages = (\<lambda>n. if n = 1 then Inr [msg_new] else Inr [msg_old, msg_new])\<rparr>"

definition chat_zoe :: Chat where
  "chat_zoe = \<lparr>chat_name = Some ''Zoe'', chat_id_user = Some ''222'',
               chat_id_serialized = ''222@c.us'', chat_isGroup = False, unreadCount = 1,
               fetchMessages = (\<lambda>n. Inr [msg_zoe])\<rparr>"

definition chat_far :: Chat where
  "chat_far = \<lparr>chat_name = Some ''Far'', chat_id_user = Some ''444'',
               chat_id_serialized = ''444@c.us'', chat_isGroup = False, unreadCount = 1,
               fetchMessages = (\<lambda>n. Inr [msg_far])\<rparr>"

text \<open>A chat whose \<open>fetchMessages\<close> fails on the contact lookup.\<close>

definition chat_broken :: Chat where
  "chat_broken = \<lparr>chat_name = Some ''Ann'', chat_id_user = Some ''333'',
                  chat_id_serialized = ''333@c.us'', chat_isGroup = False, unreadCount = 1,
                  fetchMessages =
                    (\<lambda>n. Inl ''window.Store.ContactMethods.getIsMyContact is not a function'')\<rparr>"

text \<open>A client with the given chats, whose contact list cannot be read.\<close>

definition client_with :: "Chat list \<Rightarrow> Client" where
  "client_with chats =
     \<lparr>pupPage = Inr Truthy, info = Inr Truthy, getChats = Inr chats,
      getContacts = Inl ''getIsMyContact is not a function'',
      getChatById = (\<lambda>chatId. Inl ''chat not found''), client_sendMessage = (\<lambda>chatId text. None)\<rparr>"


text \<open>
  Surroundings in which the session is disconnected during the first wait, which arms the
  reconnect timer.  The timer fires during the fourth wait and its callback calls
  \<open>initialize\<close> again; while that call awaits \<open>client.initialize()\<close> the QR code is
  delivered, and when it goes on it sets \<open>qrCode\<close> to \<open>null\<close>.
\<close>

definition reconnect_race :: InitEnv where
  "reconnect_race =
     \<lparr>initOutcome = None, duringInit = (\<lambda>s. s),
      duringWait =
        (\<lambda>i s. if i = 0 then fst (deliver [EvDisconnected ''NAVIGATION''] s)
               else if i = 3 then after_client_initialize (fst (deliver [EvQr ''2@abc''] s))
               else s),
      duringDestroy = (\<lambda>s. s), newClient = idle_client, reinitOutcome = None,
      duringReinit = (\<lambda>s. s), duringRewait = (\<lambda>i s. s)\<rparr>"

section \<open>Properties\<close>

subsection \<open>The parser on the documented utterances\<close>

text \<open>
  C2.  The utterance \<open>read messages from Mike\<close> contains \<open>read message\<close>, a trigger of the
  check rule, which comes first in the cascade: the command is a check for unread messages
  narrowed to Mike, and the read rule is never reached.
\<close>

theorem parseCommand_read_messages_from_Mike:
  "parseCommand ''read messages from Mike'' =
     Some \<lparr>ctype = WhatsApp, action = Check, target = Some ''Mike'', message = None,
           replyTo = None,
           filters = Some \<lparr>unread = Some True, contact = Some ''Mike'', limit = None\<rparr>\<rparr>"
  by code_simp

text \<open>
  The read rule itself keeps the action \<open>Unknown\<close> when no contact name is found, as on
  \<open>read my messages\<close>, and gives \<open>Read\<close> on \<open>Show me messages from Mike\<close>.
\<close>

lemma parseCommand_read_my_messages:
  "parseCommand ''read my messages'' =
     Some \<lparr>ctype = WhatsApp, action = Unknown, target = None, message = None,
           replyTo = None, filters = None\<rparr>"
  by code_simp

lemma parseCommand_show_messages_from_Mike:
  "parseCommand ''Show me messages from Mike'' =
     Some \<lparr>ctype = WhatsApp, action = Read, target = Some ''Mike'', message = None,
           replyTo = None,
           filters = Some \<lparr>unread = None, contact = Some ''Mike'', limit = None\<rparr>\<rparr>"
  by code_simp

lemma parseWhatsAppCommand_read_has_contact:
  "action (parseWhatsAppCommand lowerMessage originalMessage) = Read \<Longrightarrow>
     truthy (extractContactName originalMessage)"
  by (auto simp: parseWhatsAppCommand_def Let_def split: if_splits)

text \<open>
  C3.  The utterance \<open>reply to Sarah with Thanks!\<close> contains none of the words that select
  a domain (\<open>whatsapp\<close>, \<open>message\<close>, \<open>text\<close>, \<open>chat\<close>, \<open>email\<close>, \<open>mail\<close>, \<open>calendar\<close>,
  \<open>event\<close>, \<open>meeting\<close>), so \<open>parseCommand\<close> returns \<open>null\<close>.  The two extractors, applied
  to it, give the target \<open>Sarah with\<close> and the message \<open>to Sarah with Thanks!\<close>.
\<close>

theorem parseCommand_reply_to_Sarah:
  "parseCommand ''reply to Sarah with Thanks!'' = None \<and>
   extractContactName ''reply to Sarah with Thanks!'' = Some ''Sarah with'' \<and>
   extractReplyMessage ''reply to Sarah with Thanks!'' = Some ''to Sarah with Thanks!''"
  by code_simp

subsection \<open>Connectivity\<close>

lemma isConnected_total: "\<exists>b s'. isConnected s = Inr (b, s')"
  by (auto simp: isConnected_def split: option.splits sum.splits)

text \<open>
  C1.  After the events \<open>qr\<close> and \<open>authenticated\<close>, delivered to a service that has a client
  and no flag set, \<open>isConnected\<close> answers true and \<open>getQRCode\<close> still returns the payload of
  the \<open>qr\<close> event: the handler of \<open>authenticated\<close> does not clear it.  No timer is armed.
\<close>

theorem qr_kept_after_authenticated:
  "deliver [EvQr q, EvAuthenticated]
       \<lparr>client = Some c, isReady = False, isAuthenticated = False, qrCode = None\<rparr> =
     (\<lparr>client = Some c, isReady = False, isAuthenticated = True, qrCode = Some q\<rparr>, []) \<and>
   isConnected (fst (deliver [EvQr q, EvAuthenticated]
       \<lparr>client = Some c, isReady = False, isAuthenticated = False, qrCode = None\<rparr>)) =
     Inr (True, \<lparr>client = Some c, isReady = False, isAuthenticated = True, qrCode = Some q\<rparr>) \<and>
   getQRCode (fst (deliver [EvQr q, EvAuthenticated]
       \<lparr>client = Some c, isReady = False, isAuthenticated = False, qrCode = None\<rparr>)) = Some q"
  by (simp add: isConnected_def getQRCode_def split: sum.splits)

text \<open>
  C4.  With the authenticated flag set and the ready flag not yet set, \<open>isConnected\<close> answers
  true, and \<open>getRecentMessages\<close>, whose guard reads the ready flag, throws the not-connected
  error without a call at the client.
\<close>

theorem getRecentMessages_not_connected_while_connected:
  "isConnected \<lparr>client = Some c, isReady = False, isAuthenticated = True, qrCode = q\<rparr> =
     Inr (True, \<lparr>client = Some c, isReady = False, isAuthenticated = True, qrCode = q\<rparr>) \<and>
   getRecentMessages contactName_arg limit_arg
       \<lparr>client = Some c, isReady = False, isAuthenticated = True, qrCode = q\<rparr> =
     (Inl ''WhatsApp not connected. Please scan QR code first.'',
      \<lparr>client = Some c, isReady = False, isAuthenticated = True, qrCode = q\<rparr>, [])"
  by (simp add: isConnected_def getRecentMessages_def not_connected_error_def split: sum.splits)

text \<open>
  C6 says that \<open>isConnected\<close> answers false whenever probing the client throws.  Here
  reading \<open>info\<close> throws while the authenticated flag is set: the \<open>catch\<close> block returns
  that flag, and the answer is true.
\<close>

theorem isConnected_true_when_probe_throws:
  "info probe_failing_client = Inl ''Target closed'' \<and>
   isConnected \<lparr>client = Some probe_failing_client, isReady = False, isAuthenticated = True,
                qrCode = None\<rparr> =
     Inr (True, \<lparr>client = Some probe_failing_client, isReady = False, isAuthenticated = True,
                 qrCode = None\<rparr>)"
  by (simp add: probe_failing_client_def isConnected_def)

text \<open>
  C6, amended.  \<open>isConnected\<close> never throws.  When reading \<open>info\<close> or \<open>pupPage\<close> throws, it
  answers false unless the ready or the authenticated flag is set, in which case it answers
  true; the service is left as it was.
\<close>

theorem isConnected_never_throws:
  "(\<exists>b s'. isConnected s = Inr (b, s')) \<and>
   (client s = Some c \<and> (info c = Inl e \<or> pupPage c = Inl e) \<longrightarrow>
      isConnected s = Inr (isReady s \<or> isAuthenticated s, s))"
  by (auto simp: isConnected_def isClientInitialized_def split: option.splits sum.splits)

text \<open>C6, amended, on a service without flags whose \<open>info\<close> throws: the answer is false.\<close>

theorem isConnected_never_throws_witness:
  "client \<lparr>client = Some probe_failing_client, isReady = False, isAuthenticated = False,
           qrCode = None\<rparr> = Some probe_failing_client \<and>
   (info probe_failing_client = Inl ''Target closed'' \<or>
    pupPage probe_failing_client = Inl ''Target closed'') \<and>
   isConnected \<lparr>client = Some probe_failing_client, isReady = False, isAuthenticated = False,
                qrCode = None\<rparr> =
     Inr (False, \<lparr>client = Some probe_failing_client, isReady = False, isAuthenticated = False,
                  qrCode = None\<rparr>)"
  using isConnected_never_throws[of "\<lparr>client = Some probe_failing_client, isReady = False,
      isAuthenticated = False, qrCode = None\<rparr>" probe_failing_client "''Target closed''"]
  by (simp add: probe_failing_client_def)

subsection \<open>The executor on a send command without a message\<close>

text \<open>
  C7 says that the executor answers every send command that has a target and no message
  with the clarification prompt.  On a service that is not connected the answer is the
  notice to connect first.
\<close>

theorem send_without_message_when_disconnected:
  "handleWhatsAppCommand
     \<lparr>ctype = WhatsApp, action = Send, target = Some ''John'', message = None, replyTo = None,
      filters = None\<rparr> 0 (new_service uninitialized_client) =
     (Inr (''WhatsApp is not connected. Please connect WhatsApp first by saying '' @ [CHR 0x22] @
           ''connect WhatsApp'' @ [CHR 0x22] @ '' or scanning the QR code in settings.''),
      new_service uninitialized_client, [])"
  by (simp add: handleWhatsAppCommand_def isConnected_def isClientInitialized_def
      new_service_def construct_def uninitialized_client_def not_connected_reply_def dquote_def)

text \<open>
  C7, amended.  \<open>send a message to John\<close> parses to a send command with target \<open>John\<close> and
  no message.  For every send command with a target and no message the executor, on a
  connected service, returns the prompt that asks what to send to the target, and on a
  service that is not connected the notice to connect first; in both cases it throws
  nothing and sends nothing.
\<close>

theorem send_without_message_is_clarified:
  "parseCommand ''send a message to John'' =
     Some \<lparr>ctype = WhatsApp, action = Send, target = Some ''John'', message = None,
           replyTo = None, filters = None\<rparr> \<and>
   (action cmd = Send \<and> truthy (target cmd) \<and> \<not> truthy (message cmd) \<longrightarrow>
      (\<forall>s1. isConnected s = Inr (True, s1) \<longrightarrow>
         handleWhatsAppCommand cmd now s =
           (Inr (''What would you like to send to '' @ the (target cmd) @
                 ''? Please tell me the message content. For example: '' @ [CHR 0x22] @
                 ''send hello to '' @ the (target cmd) @ [CHR 0x22] @ '' or '' @ [CHR 0x22] @
                 ''send to '' @ the (target cmd) @ '' saying hello there'' @ [CHR 0x22] @ ''.''),
            s1, [])) \<and>
      (\<forall>s1. isConnected s = Inr (False, s1) \<longrightarrow>
         handleWhatsAppCommand cmd now s =
           (Inr (''WhatsApp is not connected. Please connect WhatsApp first by saying '' @
                 [CHR 0x22] @ ''connect WhatsApp'' @ [CHR 0x22] @
                 '' or scanning the QR code in settings.''),
            s1, [])))"
proof -
  have parsed: "parseCommand ''send a message to John'' =
     Some \<lparr>ctype = WhatsApp, action = Send, target = Some ''John'', message = None,
           replyTo = None, filters = None\<rparr>"
    by code_simp
  have asked: "handleWhatsAppCommand cmd now s =
           (Inr (''What would you like to send to '' @ the (target cmd) @
                 ''? Please tell me the message content. For example: '' @ [CHR 0x22] @
                 ''send hello to '' @ the (target cmd) @ [CHR 0x22] @ '' or '' @ [CHR 0x22] @
                 ''send to '' @ the (target cmd) @ '' saying hello there'' @ [CHR 0x22] @ ''.''),
            s1, [])"
    if "action cmd = Send" "truthy (target cmd)" "\<not> truthy (message cmd)"
      "isConnected s = Inr (True, s1)" for s1
    using that
    by (simp add: handleWhatsAppCommand_def handle_actions_def clarification_prompt_def dquote_def)
  have refused: "handleWhatsAppCommand cmd now s =
           (Inr (''WhatsApp is not connected. Please connect WhatsApp first by saying '' @
                 [CHR 0x22] @ ''connect WhatsApp'' @ [CHR 0x22] @
                 '' or scanning the QR code in settings.''),
            s1, [])"
    if "isConnected s = Inr (False, s1)" for s1
    using that by (simp add: handleWhatsAppCommand_def not_connected_reply_def dquote_def)
  from parsed asked refused show ?thesis by blast
qed

text \<open>
  C7, amended, on the parsed command: the prompt on a ready service, the notice on a new
  one.
\<close>

theorem send_without_message_is_clarified_witness:
  "action \<lparr>ctype = WhatsApp, action = Send, target = Some ''John'', message = None,
           replyTo = None, filters = None\<rparr> = Send \<and>
   isConnected (ready_service idle_client) = Inr (True, ready_service idle_client) \<and>
   handleWhatsAppCommand \<lparr>ctype = WhatsApp, action = Send, target = Some ''John'', message = None,
           replyTo = None, filters = None\<rparr> 0 (ready_service idle_client) =
     (Inr (''What would you like to send to John? Please tell me the message content. '' @
           ''For example: '' @ [CHR 0x22] @ ''send hello to John'' @ [CHR 0x22] @ '' or '' @
           [CHR 0x22] @ ''send to John saying hello there'' @ [CHR 0x22] @ ''.''),
      ready_service idle_client, []) \<and>
   isConnected (new_service uninitialized_client) = Inr (False, new_service uninitialized_client) \<and>
   fst (handleWhatsAppCommand \<lparr>ctype = WhatsApp, action = Send, target = Some ''John'',
           message = None, replyTo = None, filters = None\<rparr> 0 (new_service uninitialized_client)) =
     Inr (''WhatsApp is not connected. Please connect WhatsApp first by saying '' @
          [CHR 0x22] @ ''connect WhatsApp'' @ [CHR 0x22] @ '' or scanning the QR code in settings.'')"
proof -
  let ?cmd = "\<lparr>ctype = WhatsApp, action = Send, target = Some ''John'', message = None,
           replyTo = None, filters = None\<rparr>"
  have c1: "isConnected (ready_service idle_client) = Inr (True, ready_service idle_client)"
    by (simp add: ready_service_def isConnected_def)
  have c2: "isConnected (new_service uninitialized_client) =
      Inr (False, new_service uninitialized_client)"
    by (simp add: new_service_def construct_def isConnected_def isClientInitialized_def
        uninitialized_client_def)
  from send_without_message_is_clarified[where cmd = ?cmd and now = 0
        and s = "ready_service idle_client"]
    send_without_message_is_clarified[where cmd = ?cmd and now = 0
        and s = "new_service uninitialized_client"] c1 c2
  show ?thesis by simp
qed

subsection \<open>Message listings\<close>

lemma insert_sorted_mset: "mset (insert_sorted comparefn x ys) = add_mset x (mset ys)"
  by (induction ys) auto

lemma array_sort_mset: "mset (array_sort comparefn xs) = mset xs"
  by (induction xs) (auto simp: array_sort_def insert_sorted_mset)

lemma sort_newest_first_mset: "mset (sort_newest_first ms) = mset ms"
  by (simp add: sort_newest_first_def array_sort_mset)

lemma sort_newest_first_set: "set (sort_newest_first ms) = set ms"
  using sort_newest_first_mset[of ms] by (metis set_mset_mset)

lemma sort_newest_first_length: "length (sort_newest_first ms) = length ms"
  using sort_newest_first_mset[of ms] by (metis size_mset)

lemma insert_sorted_set: "set (insert_sorted comparefn x ys) = insert x (set ys)"
  using insert_sorted_mset[of comparefn x ys] by (metis set_mset_add_mset_insert set_mset_mset)

lemma insert_sorted_newest_first:
  assumes "timestamp x \<noteq> None" and "\<forall>y \<in> set ys. timestamp y \<noteq> None" and "newest_first ys"
  shows "newest_first (insert_sorted compare_newest_first x ys)"
  using assms
proof (induction ys)
  case Nil
  then show ?case by (simp add: newest_first_def)
next
  case (Cons y ys)
  from Cons.prems obtain tx ty where tx: "timestamp x = Some tx" and ty: "timestamp y = Some ty"
    by auto
  from Cons.prems have sorted_ys: "newest_first ys"
    and y_first: "\<forall>z \<in> set ys. \<exists>tz. timestamp z = Some tz \<and> tz \<le> ty"
    using ty by (auto simp: newest_first_def split: option.splits)
  show ?case
  proof (cases "ty - tx \<le> 0")
    case True
    with tx ty have ins: "insert_sorted compare_newest_first x (y # ys) = x # y # ys"
      by (simp add: sort_compare_def compare_newest_first_def)
    from True y_first have "\<forall>z \<in> set (y # ys). \<exists>tz. timestamp z = Some tz \<and> tz \<le> tx"
      using ty by fastforce
    with Cons.prems(3) tx show ?thesis
      unfolding ins by (auto simp: newest_first_def)
  next
    case False
    with tx ty have ins: "insert_sorted compare_newest_first x (y # ys) =
        y # insert_sorted compare_newest_first x ys"
      by (simp add: sort_compare_def compare_newest_first_def)
    from Cons.IH Cons.prems sorted_ys
    have rest: "newest_first (insert_sorted compare_newest_first x ys)" by simp
    from False y_first tx
    have "\<forall>z \<in> set (insert_sorted compare_newest_first x ys).
            \<exists>tz. timestamp z = Some tz \<and> tz \<le> ty"
      by (auto simp: insert_sorted_set)
    with rest ty show ?thesis
      unfolding ins by (auto simp: newest_first_def)
  qed
qed

lemma sort_newest_first_sorted:
  "\<forall>m \<in> set ms. timestamp m \<noteq> None \<Longrightarrow> newest_first (sort_newest_first ms)"
proof (induction ms)
  case Nil
  then show ?case by (simp add: sort_newest_first_def array_sort_def newest_first_def)
next
  case (Cons m ms)
  then have ih: "newest_first (sort_newest_first ms)" by simp
  have "\<forall>y \<in> set (sort_newest_first ms). timestamp y \<noteq> None"
    using Cons.prems by (simp add: sort_newest_first_set)
  with Cons.prems ih
  have "newest_first (insert_sorted compare_newest_first m (sort_newest_first ms))"
    by (intro insert_sorted_newest_first) simp_all
  then show ?case by (simp add: sort_newest_first_def array_sort_def)
qed

lemma slice0_prefix: "\<exists>n. slice0 xs k = take n xs"
  by (auto simp: slice0_def)

lemma slice0_newest_first: "newest_first ms \<Longrightarrow> newest_first (slice0 ms k)"
  using slice0_prefix[of ms k] by (auto simp: newest_first_def sorted_wrt_take)

lemma slice0_nonneg: "0 \<le> k \<Longrightarrow> slice0 xs k = take (nat k) xs"
  by (simp add: slice0_def)

lemma slice0_subset: "set (slice0 xs k) \<subseteq> set xs"
  using slice0_prefix[of xs k] by (auto dest: in_set_takeD)

text \<open>
  The loop of \<open>getRecentMessages\<close>: the fetches it makes are one fetch with limit 1 on
  each chat of a subsequence of the chats it is given, and when it ends normally it has
  added one record for each chat of a subsequence of the fetched ones.
\<close>

lemma recent_loop_shape:
  "recent_loop cn chats acc facc = (r, fetches) \<Longrightarrow>
     \<exists>fetched. subseq fetched chats \<and> fetches = facc @ map (\<lambda>ch. (ch, 1)) fetched \<and>
       (\<forall>ms. r = Inr ms \<longrightarrow>
          (\<exists>cs new. subseq cs fetched \<and> ms = acc @ new \<and>
             list_all2 (\<lambda>m ch. \<exists>lastMessage rest. fetchMessages ch 1 = Inr (lastMessage # rest) \<and>
                          m = recent_record ch lastMessage) new cs))"
proof (induction chats arbitrary: acc facc)
  case Nil
  then show ?case by auto
next
  case (Cons chat chats)
  obtain step fs where step: "recent_of_chat cn chat = (step, fs)"
    by (cases "recent_of_chat cn chat")
  then have fs_cases: "fs = [] \<and> step = Inr None \<or> fs = [(chat, 1)]"
    by (auto simp: recent_of_chat_def split: if_splits sum.splits list.splits)
  show ?case
  proof (cases step)
    case (Inl e)
    with step Cons.prems have r: "r = Inl e" and f: "fetches = facc @ fs" by auto
    from fs_cases Inl have "fs = [(chat, 1)]" by auto
    with f have "fetches = facc @ map (\<lambda>ch. (ch, 1)) [chat]" by simp
    moreover have "subseq [chat] (chat # chats)" by simp
    ultimately show ?thesis using r by blast
  next
    case (Inr found)
    show ?thesis
    proof (cases found)
      case None
      with Inr step Cons.prems have rec: "recent_loop cn chats acc (facc @ fs) = (r, fetches)"
        by simp
      from Cons.IH[OF rec] obtain fetched where
        sub: "subseq fetched chats" and f: "fetches = (facc @ fs) @ map (\<lambda>ch. (ch, 1)) fetched" and
        res: "\<forall>ms. r = Inr ms \<longrightarrow>
          (\<exists>cs new. subseq cs fetched \<and> ms = acc @ new \<and>
             list_all2 (\<lambda>m ch. \<exists>lastMessage rest. fetchMessages ch 1 = Inr (lastMessage # rest) \<and>
                          m = recent_record ch lastMessage) new cs)"
        by blast
      from fs_cases show ?thesis
      proof
        assume "fs = [] \<and> step = Inr None"
        with f have "fetches = facc @ map (\<lambda>ch. (ch, 1)) fetched" by simp
        moreover from sub have "subseq fetched (chat # chats)" by (rule list_emb_Cons)
        ultimately show ?thesis using res by blast
      next
        assume "fs = [(chat, 1)]"
        with f have f': "fetches = facc @ map (\<lambda>ch. (ch, 1)) (chat # fetched)" by simp
        from sub have sub': "subseq (chat # fetched) (chat # chats)" by simp
        have "\<forall>ms. r = Inr ms \<longrightarrow>
          (\<exists>cs new. subseq cs (chat # fetched) \<and> ms = acc @ new \<and>
             list_all2 (\<lambda>m ch. \<exists>lastMessage rest. fetchMessages ch 1 = Inr (lastMessage # rest) \<and>
                          m = recent_record ch lastMessage) new cs)"
        proof (intro allI impI)
          fix ms assume "r = Inr ms"
          with res obtain cs new where "subseq cs fetched" "ms = acc @ new"
            "list_all2 (\<lambda>m ch. \<exists>lastMessage rest. fetchMessages ch 1 = Inr (lastMessage # rest) \<and>
                          m = recent_record ch lastMessage) new cs"
            by blast
          moreover from this(1) have "subseq cs (chat # fetched)" by (rule list_emb_Cons)
          ultimately show "\<exists>cs new. subseq cs (chat # fetched) \<and> ms = acc @ new \<and>
             list_all2 (\<lambda>m ch. \<exists>lastMessage rest. fetchMessages ch 1 = Inr (lastMessage # rest) \<and>
                          m = recent_record ch lastMessage) new cs"
            by blast
        qed
        with f' sub' show ?thesis by blast
      qed
    next
      case (Some m)
      with Inr step Cons.prems
      have rec: "recent_loop cn chats (acc @ [m]) (facc @ fs) = (r, fetches)" by simp
      from step Inr Some have fetched_m:
        "\<exists>lastMessage rest. fetchMessages chat 1 = Inr (lastMessage # rest) \<and>
           m = recent_record chat lastMessage"
        and fs: "fs = [(chat, 1)]"
        by (auto simp: recent_of_chat_def split: if_splits sum.splits list.splits)
      from Cons.IH[OF rec] obtain fetched where
        sub: "subseq fetched chats" and f: "fetches = (facc @ fs) @ map (\<lambda>ch. (ch, 1)) fetched" and
        res: "\<forall>ms. r = Inr ms \<longrightarrow>
          (\<exists>cs new. subseq cs fetched \<and> ms = (acc @ [m]) @ new \<and>
             list_all2 (\<lambda>m ch. \<exists>lastMessage rest. fetchMessages ch 1 = Inr (lastMessage # rest) \<and>
                          m = recent_record ch lastMessage) new cs)"
        by blast
      from f fs have f': "fetches = facc @ map (\<lambda>ch. (ch, 1)) (chat # fetched)" by simp
      from sub have sub': "subseq (chat # fetched) (chat # chats)" by simp
      have "\<forall>ms. r = Inr ms \<longrightarrow>
          (\<exists>cs new. subseq cs (chat # fetched) \<and> ms = acc @ new \<and>
             list_all2 (\<lambda>m ch. \<exists>lastMessage rest. fetchMessages ch 1 = Inr (lastMessage # rest) \<and>
                          m = recent_record ch lastMessage) new cs)"
      proof (intro allI impI)
        fix ms assume "r = Inr ms"
        with res obtain cs new where c: "subseq cs fetched" and ms: "ms = (acc @ [m]) @ new" and
          all2: "list_all2 (\<lambda>m ch. \<exists>lastMessage rest. fetchMessages ch 1 = Inr (lastMessage # rest) \<and>
                          m = recent_record ch lastMessage) new cs"
          by blast
        from c have "subseq (chat # cs) (chat # fetched)" by simp
        moreover from ms have "ms = acc @ (m # new)" by simp
        moreover from fetched_m all2 have
          "list_all2 (\<lambda>m ch. \<exists>lastMessage rest. fetchMessages ch 1 = Inr (lastMessage # rest) \<and>
                          m = recent_record ch lastMessage) (m # new) (chat # cs)"
          by simp
        ultimately show "\<exists>cs new. subseq cs (chat # fetched) \<and> ms = acc @ new \<and>
             list_all2 (\<lambda>m ch. \<exists>lastMessage rest. fetchMessages ch 1 = Inr (lastMessage # rest) \<and>
                          m = recent_record ch lastMessage) new cs"
          by blast
      qed
      with f' sub' show ?thesis by blast
    qed
  qed
qed

lemma getRecentMessages_run:
  assumes "client s = Some c" and "getChats c = Inr chats"
    and "getRecentMessages cn limit_arg s = (r, s', fetches)"
  shows "\<exists>fetched. subseq fetched (slice0 chats (limit_or_default limit_arg)) \<and>
           fetches = map (\<lambda>ch. (ch, 1)) fetched \<and>
           (\<forall>ms. r = Inr ms \<longrightarrow>
              (\<exists>cs new. subseq cs fetched \<and>
                 ms = slice0 (sort_newest_first new) (limit_or_default limit_arg) \<and>
                 list_all2 (\<lambda>m ch. \<exists>lastMessage rest. fetchMessages ch 1 = Inr (lastMessage # rest) \<and>
                              m = recent_record ch lastMessage) new cs))"
proof (cases "isReady s")
  case False
  with assms have "fetches = []" "r = Inl not_connected_error"
    by (auto simp: getRecentMessages_def)
  then show ?thesis by auto
next
  case True
  let ?lim = "limit_or_default limit_arg"
  obtain lr lf where loop: "recent_loop cn (slice0 chats ?lim) [] [] = (lr, lf)"
    by (cases "recent_loop cn (slice0 chats ?lim) [] []")
  from recent_loop_shape[OF loop] obtain fetched where
    sub: "subseq fetched (slice0 chats ?lim)" and lf: "lf = map (\<lambda>ch. (ch, 1)) fetched" and
    res: "\<forall>ms. lr = Inr ms \<longrightarrow>
          (\<exists>cs new. subseq cs fetched \<and> ms = new \<and>
             list_all2 (\<lambda>m ch. \<exists>lastMessage rest. fetchMessages ch 1 = Inr (lastMessage # rest) \<and>
                          m = recent_record ch lastMessage) new cs)"
    by auto
  from True assms loop have f: "fetches = lf"
    and r: "r = (case lr of Inl e \<Rightarrow> Inl e | Inr messages \<Rightarrow> Inr (slice0 (sort_newest_first messages) ?lim))"
    by (auto simp: getRecentMessages_def Let_def split: sum.splits)
  have "\<forall>ms. r = Inr ms \<longrightarrow>
              (\<exists>cs new. subseq cs fetched \<and> ms = slice0 (sort_newest_first new) ?lim \<and>
                 list_all2 (\<lambda>m ch. \<exists>lastMessage rest. fetchMessages ch 1 = Inr (lastMessage # rest) \<and>
                              m = recent_record ch lastMessage) new cs)"
  proof (intro allI impI)
    fix ms assume "r = Inr ms"
    with r obtain messages where "lr = Inr messages" "ms = slice0 (sort_newest_first messages) ?lim"
      by (cases lr) auto
    with res show "\<exists>cs new. subseq cs fetched \<and> ms = slice0 (sort_newest_first new) ?lim \<and>
                 list_all2 (\<lambda>m ch. \<exists>lastMessage rest. fetchMessages ch 1 = Inr (lastMessage # rest) \<and>
                              m = recent_record ch lastMessage) new cs"
      by blast
  qed
  with sub lf f show ?thesis by blast
qed

text \<open>
  C10 says that \<open>getRecentMessages\<close> examines only the first \<open>limit\<close> chats and returns at
  most \<open>limit\<close> messages.  With the limit \<open>-1\<close>, which \<open>GET /api/whatsapp/messages\<close> passes
  on as it is, \<open>slice(0, -1)\<close> drops the last element: of three chats the first two are
  fetched, and one message is returned.
\<close>

theorem recent_with_negative_limit:
  "(case getRecentMessages None (Some (- 1))
           (ready_service (client_with [chat_zoe, chat_mike, chat_broken])) of
      (r, s', fetches) \<Rightarrow>
        (map_sum id (map mid) r, map (\<lambda>f. chat_id_serialized (fst f)) fetches, map snd fetches)) =
     (Inr [''m2''], [''222@c.us'', ''111@c.us''], [1, 1])"
  by code_simp

text \<open>
  C10, amended.  For a limit that is not negative, \<open>getRecentMessages\<close> calls
  \<open>fetchMessages\<close> only on chats among the first \<open>limit\<close> chats in the order of \<open>getChats\<close>,
  at most once on each and with limit 1; when it returns, its messages are at most as many
  as the limit and are, up to order, one record for each chat of a subsequence of the
  fetched chats, built from the first message that the fetch returned and carrying its id
  and body.  (With a negative limit both \<open>slice\<close> calls count from the end.)
\<close>

theorem recent_one_per_chat:
  assumes "client s = Some c" and "getChats c = Inr chats" and "0 \<le> limit_or_default limit_arg"
    and "getRecentMessages cn limit_arg s = (r, s', fetches)"
  shows "\<exists>fetched. subseq fetched (take (nat (limit_or_default limit_arg)) chats) \<and>
           fetches = map (\<lambda>ch. (ch, 1)) fetched \<and>
           (\<forall>ms. r = Inr ms \<longrightarrow>
              length ms \<le> nat (limit_or_default limit_arg) \<and>
              (\<exists>cs new. subseq cs fetched \<and> mset ms = mset new \<and>
                 list_all2 (\<lambda>m ch. \<exists>lastMessage rest.
                              fetchMessages ch 1 = Inr (lastMessage # rest) \<and>
                              m = recent_record ch lastMessage \<and>
                              mid m = rm_id lastMessage \<and> body m = rm_body lastMessage) new cs))"
proof -
  let ?lim = "limit_or_default limit_arg"
  from assms(3) have sl: "slice0 chats ?lim = take (nat ?lim) chats"
    by (rule slice0_nonneg)
  from getRecentMessages_run[OF assms(1,2,4)] obtain fetched where
    sub: "subseq fetched (slice0 chats ?lim)" and f: "fetches = map (\<lambda>ch. (ch, 1)) fetched" and
    res: "\<forall>ms. r = Inr ms \<longrightarrow>
              (\<exists>cs new. subseq cs fetched \<and> ms = slice0 (sort_newest_first new) ?lim \<and>
                 list_all2 (\<lambda>m ch. \<exists>lastMessage rest. fetchMessages ch 1 = Inr (lastMessage # rest) \<and>
                              m = recent_record ch lastMessage) new cs)"
    by blast
  have "\<forall>ms. r = Inr ms \<longrightarrow>
              length ms \<le> nat ?lim \<and>
              (\<exists>cs new. subseq cs fetched \<and> mset ms = mset new \<and>
                 list_all2 (\<lambda>m ch. \<exists>lastMessage rest.
                              fetchMessages ch 1 = Inr (lastMessage # rest) \<and>
                              m = recent_record ch lastMessage \<and>
                              mid m = rm_id lastMessage \<and> body m = rm_body lastMessage) new cs)"
  proof (intro allI impI)
    fix ms assume "r = Inr ms"
    with res obtain cs new where cs: "subseq cs fetched" and
      ms: "ms = slice0 (sort_newest_first new) ?lim" and
      all2: "list_all2 (\<lambda>m ch. \<exists>lastMessage rest. fetchMessages ch 1 = Inr (lastMessage # rest) \<and>
                              m = recent_record ch lastMessage) new cs"
      by blast
    from all2 have "length new = length cs" by (rule list_all2_lengthD)
    also from cs have "\<dots> \<le> length fetched" by (rule list_emb_length)
    also from sub have "\<dots> \<le> length (slice0 chats ?lim)" by (rule list_emb_length)
    also from sl have "\<dots> \<le> nat ?lim" by simp
    finally have len: "length new \<le> nat ?lim" .
    from ms assms(3) have "ms = take (nat ?lim) (sort_newest_first new)"
      by (simp add: slice0_nonneg)
    with len have full: "ms = sort_newest_first new"
      by (simp add: sort_newest_first_length)
    from all2 have pinned: "list_all2 (\<lambda>m ch. \<exists>lastMessage rest.
                              fetchMessages ch 1 = Inr (lastMessage # rest) \<and>
                              m = recent_record ch lastMessage \<and>
                              mid m = rm_id lastMessage \<and> body m = rm_body lastMessage) new cs"
      by (rule list_all2_mono) (auto simp: recent_record_def)
    from full len have "length ms \<le> nat ?lim" by (simp add: sort_newest_first_length)
    moreover from full have "mset ms = mset new" by (simp add: sort_newest_first_mset)
    ultimately show "length ms \<le> nat ?lim \<and>
              (\<exists>cs new. subseq cs fetched \<and> mset ms = mset new \<and>
                 list_all2 (\<lambda>m ch. \<exists>lastMessage rest.
                              fetchMessages ch 1 = Inr (lastMessage # rest) \<and>
                              m = recent_record ch lastMessage \<and>
                              mid m = rm_id lastMessage \<and> body m = rm_body lastMessage) new cs)"
      using cs pinned by blast
  qed
  with sub sl f show ?thesis by auto
qed

text \<open>
  C10, amended, on three chats with limit 2: the first two chats are fetched with limit 1,
  the third, which is broken, is not touched, and two messages come back.
\<close>

theorem recent_one_per_chat_witness:
  "client (ready_service (client_with [chat_zoe, chat_mike, chat_broken])) =
     Some (client_with [chat_zoe, chat_mike, chat_broken]) \<and>
   getChats (client_with [chat_zoe, chat_mike, chat_broken]) = Inr [chat_zoe, chat_mike, chat_broken] \<and>
   0 \<le> limit_or_default (Some 2) \<and>
   (\<exists>ms s' fetched.
      getRecentMessages None (Some 2) (ready_service (client_with [chat_zoe, chat_mike, chat_broken])) =
        (Inr ms, s', map (\<lambda>ch. (ch, 1)) fetched) \<and>
      subseq fetched [chat_zoe, chat_mike] \<and> map mid ms = [''m2'', ''m3''] \<and> length ms \<le> 2)"
proof -
  let ?s = "ready_service (client_with [chat_zoe, chat_mike, chat_broken])"
  have cl: "client ?s = Some (client_with [chat_zoe, chat_mike, chat_broken])"
    by (simp add: ready_service_def)
  have chats: "getChats (client_with [chat_zoe, chat_mike, chat_broken]) =
      Inr [chat_zoe, chat_mike, chat_broken]"
    by (simp add: client_with_def)
  have lim: "0 \<le> limit_or_default (Some 2)"
    by (simp add: limit_or_default_def)
  have ids: "map_sum id (map mid) (fst (getRecentMessages None (Some 2) ?s)) = Inr [''m2'', ''m3'']"
    by code_simp
  obtain r s' fetches where run: "getRecentMessages None (Some 2) ?s = (r, s', fetches)"
    by (cases "getRecentMessages None (Some 2) ?s")
  from ids run obtain ms where r: "r = Inr ms" and mids: "map mid ms = [''m2'', ''m3'']"
    by (cases r) auto
  from recent_one_per_chat[OF cl chats lim run] r obtain fetched where
    "subseq fetched (take (nat (limit_or_default (Some 2))) [chat_zoe, chat_mike, chat_broken])"
    "fetches = map (\<lambda>ch. (ch, 1)) fetched" "length ms \<le> nat (limit_or_default (Some 2))"
    by blast
  then have "subseq fetched [chat_zoe, chat_mike]" "fetches = map (\<lambda>ch. (ch, 1)) fetched"
    "length ms \<le> 2"
    by (simp_all add: limit_or_default_def)
  with cl chats lim run r mids show ?thesis
    by (intro conjI exI[of _ ms] exI[of _ s'] exI[of _ fetched]) simp_all
qed

lemma unread_of_chat_total: "\<exists>ms. unread_of_chat chat = Inr ms"
  by (auto simp: unread_of_chat_def split: sum.splits option.splits)

lemma unread_of_chat_healthy:
  "0 < unreadCount chat \<Longrightarrow> fetchMessages chat (unreadCount chat) = Inr raw \<Longrightarrow>
     unread_of_chat chat = Inr (map (unread_record chat) (take (nat (unreadCount chat)) raw))"
  by (simp add: unread_of_chat_def slice0_nonneg)

lemma unread_loop_total:
  "\<exists>ms. unread_loop chats acc = Inr ms \<and>
        set acc \<subseteq> set ms \<and>
        (\<forall>chat \<in> set chats. \<forall>found. unread_of_chat chat = Inr found \<longrightarrow> set found \<subseteq> set ms)"
proof (induction chats arbitrary: acc)
  case Nil
  then show ?case by simp
next
  case (Cons chat chats)
  obtain found where f: "unread_of_chat chat = Inr found"
    using unread_of_chat_total by blast
  from Cons.IH[of "acc @ found"] obtain ms where
    loop: "unread_loop chats (acc @ found) = Inr ms" and
    acc: "set (acc @ found) \<subseteq> set ms" and
    rest: "\<forall>chat \<in> set chats. \<forall>found. unread_of_chat chat = Inr found \<longrightarrow> set found \<subseteq> set ms"
    by blast
  from f loop have "unread_loop (chat # chats) acc = Inr ms" by simp
  moreover from acc have "set acc \<subseteq> set ms" by simp
  moreover from f acc rest have
    "\<forall>ch \<in> set (chat # chats). \<forall>fd. unread_of_chat ch = Inr fd \<longrightarrow> set fd \<subseteq> set ms"
    by auto
  ultimately show ?case by blast
qed

text \<open>
  C9.  On a connected service whose client lists its chats, \<open>getUnreadMessages\<close> returns a
  list, whatever \<open>fetchMessages\<close> does on any of the chats: a chat that fails is skipped.
  For every chat with unread messages whose \<open>fetchMessages\<close> succeeds, each of its first
  \<open>unreadCount\<close> fetched messages is in the list, as a record that carries the id, the
  body and the date of the message and the group flag of the chat.
\<close>

theorem unread_tolerates_broken_chat:
  assumes "client s = Some c" and "isConnected s = Inr (True, s1)" and "getChats c = Inr chats"
  shows "\<exists>ms. getUnreadMessages s = (Inr ms, s1) \<and>
           (\<forall>chatB \<in> set chats. \<forall>raw.
              0 < unreadCount chatB \<and> fetchMessages chatB (unreadCount chatB) = Inr raw \<longrightarrow>
              (\<forall>m \<in> set (take (nat (unreadCount chatB)) raw).
                 \<exists>w \<in> set ms. w = unread_record chatB m \<and> mid w = rm_id m \<and>
                    body w = rm_body m \<and> timestamp w = date_of_seconds (rm_timestamp m) \<and>
                    isGroup w = chat_isGroup chatB))"
proof -
  from unread_loop_total[of chats "[]"] obtain collected where
    loop: "unread_loop chats [] = Inr collected" and
    all: "\<forall>chat \<in> set chats. \<forall>found. unread_of_chat chat = Inr found \<longrightarrow> set found \<subseteq> set collected"
    by blast
  let ?ms = "sort_newest_first collected"
  from assms loop have res: "getUnreadMessages s = (Inr ?ms, s1)"
    by (simp add: getUnreadMessages_def)
  have "\<exists>w \<in> set ?ms. w = unread_record chatB m \<and> mid w = rm_id m \<and>
          body w = rm_body m \<and> timestamp w = date_of_seconds (rm_timestamp m) \<and>
          isGroup w = chat_isGroup chatB"
    if "chatB \<in> set chats" "0 < unreadCount chatB"
      "fetchMessages chatB (unreadCount chatB) = Inr raw"
      "m \<in> set (take (nat (unreadCount chatB)) raw)" for chatB raw m
  proof -
    from unread_of_chat_healthy[OF that(2,3)] all that(1)
    have "set (map (unread_record chatB) (take (nat (unreadCount chatB)) raw)) \<subseteq> set collected"
      by blast
    with that(4) have "unread_record chatB m \<in> set ?ms"
      by (auto simp: sort_newest_first_set)
    moreover have "mid (unread_record chatB m) = rm_id m \<and>
        body (unread_record chatB m) = rm_body m \<and>
        timestamp (unread_record chatB m) = date_of_seconds (rm_timestamp m) \<and>
        isGroup (unread_record chatB m) = chat_isGroup chatB"
      by (simp add: unread_record_def Let_def)
    ultimately show ?thesis by blast
  qed
  with res show ?thesis by blast
qed

text \<open>
  C9 on a chat that fails followed by a chat with two unread messages: both messages of
  the second chat are listed.
\<close>

theorem unread_tolerates_broken_chat_witness:
  "isConnected (ready_service (client_with [chat_broken, chat_mike])) =
     Inr (True, ready_service (client_with [chat_broken, chat_mike])) \<and>
   (\<exists>e. fetchMessages chat_broken (unreadCount chat_broken) = Inl e) \<and>
   chat_mike \<in> set [chat_broken, chat_mike] \<and> 0 < unreadCount chat_mike \<and>
   fetchMessages chat_mike (unreadCount chat_mike) = Inr [msg_old, msg_new] \<and>
   (\<exists>ms. getUnreadMessages (ready_service (client_with [chat_broken, chat_mike])) =
            (Inr ms, ready_service (client_with [chat_broken, chat_mike])) \<and>
          (\<exists>w. w \<in> set ms \<and> mid w = ''m1'' \<and> body w = ''see you at five'') \<and>
          (\<exists>w. w \<in> set ms \<and> mid w = ''m2'' \<and> body w = ''running late''))"
proof -
  let ?s = "ready_service (client_with [chat_broken, chat_mike])"
  have conn: "isConnected ?s = Inr (True, ?s)"
    by (simp add: isConnected_def ready_service_def)
  have cl: "client ?s = Some (client_with [chat_broken, chat_mike])"
    by (simp add: ready_service_def)
  have chats: "getChats (client_with [chat_broken, chat_mike]) = Inr [chat_broken, chat_mike]"
    by (simp add: client_with_def)
  have broken: "\<exists>e. fetchMessages chat_broken (unreadCount chat_broken) = Inl e"
    by (simp add: chat_broken_def)
  have mike: "0 < unreadCount chat_mike"
    "fetchMessages chat_mike (unreadCount chat_mike) = Inr [msg_old, msg_new]"
    by (simp_all add: chat_mike_def)
  from unread_tolerates_broken_chat[OF cl conn chats] obtain ms where
    res: "getUnreadMessages ?s = (Inr ms, ?s)" and
    all: "\<forall>chatB \<in> set [chat_broken, chat_mike]. \<forall>raw.
              0 < unreadCount chatB \<and> fetchMessages chatB (unreadCount chatB) = Inr raw \<longrightarrow>
              (\<forall>m \<in> set (take (nat (unreadCount chatB)) raw).
                 \<exists>w \<in> set ms. w = unread_record chatB m \<and> mid w = rm_id m \<and>
                    body w = rm_body m \<and> timestamp w = date_of_seconds (rm_timestamp m) \<and>
                    isGroup w = chat_isGroup chatB)"
    by blast
  from all mike have each: "\<forall>m \<in> set (take (nat (unreadCount chat_mike)) [msg_old, msg_new]).
      \<exists>w \<in> set ms. mid w = rm_id m \<and> body w = rm_body m"
    by fastforce
  have "take (nat (unreadCount chat_mike)) [msg_old, msg_new] = [msg_old, msg_new]"
    by (simp add: chat_mike_def)
  with each have "(\<exists>w \<in> set ms. mid w = rm_id msg_old \<and> body w = rm_body msg_old) \<and>
      (\<exists>w \<in> set ms. mid w = rm_id msg_new \<and> body w = rm_body msg_new)"
    by simp
  then have "(\<exists>w. w \<in> set ms \<and> mid w = ''m1'' \<and> body w = ''see you at five'') \<and>
          (\<exists>w. w \<in> set ms \<and> mid w = ''m2'' \<and> body w = ''running late'')"
    by (simp add: msg_old_def msg_new_def Bex_def)
  with res conn broken mike show ?thesis by auto
qed

lemma subseq_set: "subseq xs ys \<Longrightarrow> set xs \<subseteq> set ys"
  using list_emb_set[of "(=)" xs ys] by auto

lemma getUnreadMessages_Inr:
  "fst (getUnreadMessages s) = Inr ms \<Longrightarrow> \<exists>collected. ms = sort_newest_first collected"
  by (auto simp: getUnreadMessages_def split: option.splits sum.splits bool.splits prod.splits)

lemma getMessagesFromContact_Inr:
  "fst (getMessagesFromContact name limit_arg s) = Inr ms \<Longrightarrow>
     \<exists>c chat raw. client s = Some c \<and> find_target_chat c name = Inr (Some chat) \<and>
        fetchMessages chat (limit_or_default limit_arg) = Inr raw \<and>
        map mid ms = map rm_id raw \<and> map body ms = map rm_body raw \<and>
        map timestamp ms = map (\<lambda>m. date_of_seconds (rm_timestamp m)) raw"
  by (auto simp: getMessagesFromContact_def Let_def contact_record_def
      split: option.splits sum.splits bool.splits prod.splits)

text \<open>
  C5 says that the three listings are sorted by falling time stamp and that
  \<open>getRecentMessages\<close> and \<open>getMessagesFromContact\<close> return at most \<open>limit\<close> messages.
  \<open>getMessagesFromContact\<close> returns the messages as the client gives them, here oldest
  first, and two of them where the limit is \<open>-1\<close>.  With the limit \<open>-1\<close>,
  \<open>getRecentMessages\<close> returns one message.  A message dated beyond the range of \<open>Date\<close>
  has an Invalid Date, next to which no list is in order.
\<close>

theorem listings_not_sorted_or_capped:
  "map_sum id (map timestamp)
     (fst (getMessagesFromContact ''Mike'' (Some 10) (ready_service (client_with [chat_mike, chat_zoe])))) =
     Inr [Some 100000, Some 200000] \<and>
   map_sum id (map mid)
     (fst (getMessagesFromContact ''Mike'' (Some (- 1))
        (ready_service (client_with [chat_mike, chat_zoe])))) = Inr [''m1'', ''m2''] \<and>
   map_sum id (map mid)
     (fst (getRecentMessages None (Some (- 1))
        (ready_service (client_with [chat_mike, chat_zoe, chat_far])))) = Inr [''m2''] \<and>
   map_sum id (map timestamp)
     (fst (getUnreadMessages (ready_service (client_with [chat_far, chat_zoe])))) =
     Inr [None, Some 150000] \<and>
   \<not> newest_first
       (case fst (getUnreadMessages (ready_service (client_with [chat_far, chat_zoe]))) of
          Inr ms \<Rightarrow> ms | Inl e \<Rightarrow> [])"
proof -
  have contact: "map_sum id (map timestamp)
     (fst (getMessagesFromContact ''Mike'' (Some 10) (ready_service (client_with [chat_mike, chat_zoe])))) =
     Inr [Some 100000, Some 200000]"
    by code_simp
  have uncapped: "map_sum id (map mid)
     (fst (getMessagesFromContact ''Mike'' (Some (- 1))
        (ready_service (client_with [chat_mike, chat_zoe])))) = Inr [''m1'', ''m2'']"
    by code_simp
  have negative: "map_sum id (map mid)
     (fst (getRecentMessages None (Some (- 1))
        (ready_service (client_with [chat_mike, chat_zoe, chat_far])))) = Inr [''m2'']"
    by code_simp
  have far: "fst (getUnreadMessages (ready_service (client_with [chat_far, chat_zoe]))) =
     Inr [unread_record chat_far msg_far, unread_record chat_zoe msg_zoe]"
    by code_simp
  have invalid: "timestamp (unread_record chat_far msg_far) = None"
    by (simp add: unread_record_def Let_def date_of_seconds_def msg_far_def)
  have valid: "timestamp (unread_record chat_zoe msg_zoe) = Some 150000"
    by (simp add: unread_record_def Let_def date_of_seconds_def msg_zoe_def)
  from far invalid valid have dates: "map_sum id (map timestamp)
     (fst (getUnreadMessages (ready_service (client_with [chat_far, chat_zoe])))) =
     Inr [None, Some 150000]"
    by simp
  from far invalid have unsorted: "\<not> newest_first
       (case fst (getUnreadMessages (ready_service (client_with [chat_far, chat_zoe]))) of
          Inr ms \<Rightarrow> ms | Inl e \<Rightarrow> [])"
    by (simp add: newest_first_def)
  from contact uncapped negative dates unsorted show ?thesis by (intro conjI)
qed

text \<open>
  C5, amended.  The list of \<open>getUnreadMessages\<close> is sorted by falling time stamp when none
  of its dates is invalid, and so is the list of \<open>getRecentMessages\<close> when no message that
  the chats give for a fetch with limit 1 is dated beyond the range of \<open>Date\<close>.
  \<open>getRecentMessages\<close> returns at most \<open>limit\<close> messages when the limit is not negative.
  \<open>getMessagesFromContact\<close> returns one record for each message that \<open>fetchMessages\<close> of
  the matched chat returned for the limit, in that order.
\<close>

theorem listings_order_and_limit:
  "(fst (getUnreadMessages s) = Inr unread_ms \<and> (\<forall>m \<in> set unread_ms. timestamp m \<noteq> None) \<longrightarrow>
      newest_first unread_ms) \<and>
   (client s = Some c \<and> getChats c = Inr chats \<and>
    (\<forall>ch \<in> set chats. \<forall>raw. fetchMessages ch 1 = Inr raw \<longrightarrow>
       (\<forall>m \<in> set raw. date_of_seconds (rm_timestamp m) \<noteq> None)) \<and>
    fst (getRecentMessages cn limit_arg s) = Inr recent_ms \<longrightarrow>
      newest_first recent_ms) \<and>
   (fst (getRecentMessages cn limit_arg s) = Inr recent_ms \<and> 0 \<le> limit_or_default limit_arg \<longrightarrow>
      length recent_ms \<le> nat (limit_or_default limit_arg)) \<and>
   (fst (getMessagesFromContact name contact_limit s) = Inr contact_ms \<longrightarrow>
      (\<exists>c chat raw. client s = Some c \<and> find_target_chat c name = Inr (Some chat) \<and>
         fetchMessages chat (limit_or_default contact_limit) = Inr raw \<and>
         map mid contact_ms = map rm_id raw \<and> map body contact_ms = map rm_body raw \<and>
         map timestamp contact_ms = map (\<lambda>m. date_of_seconds (rm_timestamp m)) raw))"
proof (intro conjI)
  show "fst (getUnreadMessages s) = Inr unread_ms \<and> (\<forall>m \<in> set unread_ms. timestamp m \<noteq> None) \<longrightarrow>
      newest_first unread_ms"
  proof
    assume h: "fst (getUnreadMessages s) = Inr unread_ms \<and> (\<forall>m \<in> set unread_ms. timestamp m \<noteq> None)"
    with getUnreadMessages_Inr obtain collected where ms: "unread_ms = sort_newest_first collected"
      by blast
    with h have "\<forall>m \<in> set collected. timestamp m \<noteq> None"
      by (simp add: sort_newest_first_set)
    then show "newest_first unread_ms"
      unfolding ms by (rule sort_newest_first_sorted)
  qed
next
  show "client s = Some c \<and> getChats c = Inr chats \<and>
    (\<forall>ch \<in> set chats. \<forall>raw. fetchMessages ch 1 = Inr raw \<longrightarrow>
       (\<forall>m \<in> set raw. date_of_seconds (rm_timestamp m) \<noteq> None)) \<and>
    fst (getRecentMessages cn limit_arg s) = Inr recent_ms \<longrightarrow>
      newest_first recent_ms"
  proof
    assume h: "client s = Some c \<and> getChats c = Inr chats \<and>
      (\<forall>ch \<in> set chats. \<forall>raw. fetchMessages ch 1 = Inr raw \<longrightarrow>
         (\<forall>m \<in> set raw. date_of_seconds (rm_timestamp m) \<noteq> None)) \<and>
      fst (getRecentMessages cn limit_arg s) = Inr recent_ms"
    obtain r s' fetches where run: "getRecentMessages cn limit_arg s = (r, s', fetches)"
      by (cases "getRecentMessages cn limit_arg s")
    with h have r: "r = Inr recent_ms" by simp
    from h run getRecentMessages_run[of s c chats cn limit_arg r s' fetches] r
    obtain fetched cs new where
      sub: "subseq fetched (slice0 chats (limit_or_default limit_arg))" and
      cs: "subseq cs fetched" and
      ms: "recent_ms = slice0 (sort_newest_first new) (limit_or_default limit_arg)" and
      all2: "list_all2 (\<lambda>m ch. \<exists>lastMessage rest. fetchMessages ch 1 = Inr (lastMessage # rest) \<and>
                              m = recent_record ch lastMessage) new cs"
      by blast
    have chats_cs: "set cs \<subseteq> set chats"
      using subseq_set[OF cs] subseq_set[OF sub] slice0_subset[of chats "limit_or_default limit_arg"]
      by blast
    have "timestamp m \<noteq> None" if "m \<in> set new" for m
    proof -
      from that obtain i where i: "i < length new" and m: "m = new ! i"
        by (auto simp: in_set_conv_nth)
      from all2 have len: "length new = length cs" by (rule list_all2_lengthD)
      from list_all2_nthD[OF all2 i] m obtain lastMessage rest where
        fetched: "fetchMessages (cs ! i) 1 = Inr (lastMessage # rest)" and
        rec: "m = recent_record (cs ! i) lastMessage"
        by blast
      from i len have "cs ! i \<in> set cs" by simp
      with chats_cs have "cs ! i \<in> set chats" by blast
      with h fetched have "date_of_seconds (rm_timestamp lastMessage) \<noteq> None"
        by fastforce
      with rec show ?thesis
        by (simp add: recent_record_def)
    qed
    then have "newest_first (sort_newest_first new)"
      by (intro sort_newest_first_sorted) simp
    then show "newest_first recent_ms"
      unfolding ms by (rule slice0_newest_first)
  qed
next
  show "fst (getRecentMessages cn limit_arg s) = Inr recent_ms \<and> 0 \<le> limit_or_default limit_arg \<longrightarrow>
      length recent_ms \<le> nat (limit_or_default limit_arg)"
    by (auto simp: getRecentMessages_def Let_def slice0_nonneg
        split: option.splits if_splits sum.splits prod.splits)
next
  show "fst (getMessagesFromContact name contact_limit s) = Inr contact_ms \<longrightarrow>
      (\<exists>c chat raw. client s = Some c \<and> find_target_chat c name = Inr (Some chat) \<and>
         fetchMessages chat (limit_or_default contact_limit) = Inr raw \<and>
         map mid contact_ms = map rm_id raw \<and> map body contact_ms = map rm_body raw \<and>
         map timestamp contact_ms = map (\<lambda>m. date_of_seconds (rm_timestamp m)) raw)"
    using getMessagesFromContact_Inr by blast
qed

text \<open>
  C5, amended, on a service with two chats whose messages are dated within the range of
  \<open>Date\<close>.
\<close>

theorem listings_order_and_limit_witness:
  "fst (getUnreadMessages (ready_service (client_with [chat_mike, chat_zoe]))) =
     Inr [unread_record chat_mike msg_new, unread_record chat_zoe msg_zoe,
          unread_record chat_mike msg_old] \<and>
   map timestamp [unread_record chat_mike msg_new, unread_record chat_zoe msg_zoe,
          unread_record chat_mike msg_old] = [Some 200000, Some 150000, Some 100000] \<and>
   newest_first [unread_record chat_mike msg_new, unread_record chat_zoe msg_zoe,
          unread_record chat_mike msg_old] \<and>
   fst (getRecentMessages None (Some 1) (ready_service (client_with [chat_mike, chat_zoe]))) =
     Inr [recent_record chat_mike msg_new] \<and>
   newest_first [recent_record chat_mike msg_new] \<and>
   length [recent_record chat_mike msg_new] \<le> nat (limit_or_default (Some 1)) \<and>
   (\<exists>ms raw. fst (getMessagesFromContact ''Mike'' (Some 10)
                    (ready_service (client_with [chat_mike, chat_zoe]))) = Inr ms \<and>
         fetchMessages chat_mike 10 = Inr raw \<and> map mid ms = map rm_id raw \<and>
         map mid ms = [''m1'', ''m2''])"
proof -
  let ?s = "ready_service (client_with [chat_mike, chat_zoe])"
  let ?unread = "[unread_record chat_mike msg_new, unread_record chat_zoe msg_zoe,
          unread_record chat_mike msg_old]"
  let ?contact = "[contact_record chat_mike ''Mike'' msg_old, contact_record chat_mike ''Mike'' msg_new]"
  have u: "fst (getUnreadMessages ?s) = Inr ?unread"
    by code_simp
  have ut: "map timestamp ?unread = [Some 200000, Some 150000, Some 100000]"
    by (simp add: unread_record_def Let_def date_of_seconds_def msg_new_def msg_zoe_def msg_old_def)
  then have uv: "\<forall>m \<in> set ?unread. timestamp m \<noteq> None"
    by simp
  have r: "fst (getRecentMessages None (Some 1) ?s) = Inr [recent_record chat_mike msg_new]"
    by code_simp
  have m: "fst (getMessagesFromContact ''Mike'' (Some 10) ?s) = Inr ?contact"
    by code_simp
  have cl: "client ?s = Some (client_with [chat_mike, chat_zoe])"
    by (simp add: ready_service_def)
  have chats: "getChats (client_with [chat_mike, chat_zoe]) = Inr [chat_mike, chat_zoe]"
    by (simp add: client_with_def)
  have dated: "\<forall>ch \<in> set [chat_mike, chat_zoe]. \<forall>raw. fetchMessages ch 1 = Inr raw \<longrightarrow>
       (\<forall>m \<in> set raw. date_of_seconds (rm_timestamp m) \<noteq> None)"
    by (auto simp: chat_mike_def chat_zoe_def msg_new_def msg_zoe_def date_of_seconds_def)
  have lim: "0 \<le> limit_or_default (Some 1)"
    by (simp add: limit_or_default_def)
  have raw: "fetchMessages chat_mike 10 = Inr [msg_old, msg_new]"
    by (simp add: chat_mike_def)
  have ids: "map mid ?contact = map rm_id [msg_old, msg_new]" "map mid ?contact = [''m1'', ''m2'']"
    by (simp_all add: contact_record_def msg_old_def msg_new_def)
  note inst = listings_order_and_limit[where s = ?s and unread_ms = ?unread
      and c = "client_with [chat_mike, chat_zoe]" and chats = "[chat_mike, chat_zoe]"
      and cn = None and limit_arg = "Some 1" and recent_ms = "[recent_record chat_mike msg_new]"
      and name = "''Mike''" and contact_limit = "Some 10" and contact_ms = ?contact]
  from inst u uv have s1: "newest_first ?unread" by blast
  from inst cl chats dated r have s2: "newest_first [recent_record chat_mike msg_new]" by blast
  from inst r lim have s3: "length [recent_record chat_mike msg_new] \<le> nat (limit_or_default (Some 1))"
    by blast
  from u ut s1 r s2 s3 m raw ids show ?thesis
    by (intro conjI exI[of _ ?contact] exI[of _ "[msg_old, msg_new]"])
qed

subsection \<open>Bounded initialization\<close>






text \<open>
  A QR code that a second call of \<open>initialize\<close> clears before the next check is not seen.
  The \<open>disconnected\<close> event arms the reconnect timer, whose callback calls \<open>initialize\<close>
  on the service as the event leaves it; when the QR code is delivered and cleared within
  one wait of the first call, that call polls 20 times and returns neither code nor ready.
\<close>

lemma reconnect_timer_armed:
  "deliver [EvDisconnected ''NAVIGATION''] (new_service uninitialized_client) =
     (new_service uninitialized_client, [ReconnectTimer]) \<and>
   timer_calls_initialize ReconnectTimer (new_service uninitialized_client)"
  by (simp add: new_service_def construct_def)

lemma cleared_code_is_not_returned:
  "initialize reconnect_race (new_service uninitialized_client) =
     \<lparr>outcome = Inr \<lparr>res_qrCode = None, res_ready = False\<rparr>,
      after = new_service uninitialized_client, waited = 20, inits = 1\<rparr>"
  by (simp add: initialize_def reconnect_race_def new_service_def construct_def
      uninitialized_client_def isClientInitialized_def after_client_initialize_def Let_def
      poll_result_def eval_nat_numeral)

end
